theory Spec2Isabelle
  imports Complex_Main
begin

section \<open>The configuration\<close>

text \<open>
  \<^verbatim>\<open>main.py\<close> reads a nested configuration node \<^verbatim>\<open>cfg\<close>. Each sub-node is a record holding
  the keys that \<^verbatim>\<open>main.py\<close> reads (and \<^verbatim>\<open>train.max_epoch\<close>, which the run configuration of
  the engine needs). A field keeps the name of its key; where two sub-nodes have a key of
  the same name (\<^verbatim>\<open>margin\<close>, \<^verbatim>\<open>weight_t\<close>, \<^verbatim>\<open>weight_x\<close>, \<^verbatim>\<open>metric\<close>, \<^verbatim>\<open>name\<close>, \<^verbatim>\<open>root\<close>) the field is
  prefixed with the name of its sub-node. Python floats are only handed on, never computed
  with, and are carried as \<^typ>\<open>real\<close>; Python ints are \<^typ>\<open>int\<close>.
\<close>

record softmax_cfg =
  label_smooth :: bool

record triplet_cfg =
  triplet_margin :: real
  triplet_weight_t :: real
  triplet_weight_x :: real
  triplet_metric :: string
  ranked_loss :: bool
  ms_loss :: bool

record center_cfg =
  center_weight_t :: real
  center_weight_x :: real
  weight_c :: real
  feature_dim :: int
  num_features :: int

record ohem_cfg =
  ohem_weight_t :: real
  ohem_weight_x :: real
  weight_f :: real

record loss_cfg =
  loss_name :: string
  softmax :: softmax_cfg
  triplet :: triplet_cfg
  center :: center_cfg
  ohem :: ohem_cfg

record data_cfg =
  is_train :: bool
  data_root :: string
  data_sources :: "string list"
  data_targets :: "string list"
  data_transforms :: "string list"
  save_dir :: string
  data_type :: string

record model_cfg =
  model_name :: string
  pretrained :: bool
  load_weights :: string
  resume :: string

record train_cfg =
  seed :: int
  start_epoch :: int
  max_epoch :: int

record test_cfg =
  evaluate :: bool

record config =
  use_gpu :: bool
  data :: data_cfg
  loss :: loss_cfg
  model :: model_cfg
  train :: train_cfg
  test :: test_cfg

section \<open>Engines\<close>

text \<open>
  The five engine classes live in the module \<^verbatim>\<open>engine\<close>. A constructed engine is the
  record of the constructor call that made it: the class and every argument, positional
  arguments first and keyword arguments in the order \<^verbatim>\<open>build_engine\<close> writes them. The data
  manager, the model, the optimizer and the scheduler are objects of other modules and stay
  type parameters.
\<close>

datatype ('dm, 'm, 'o, 's) engine =
    is_ImageSoftmaxEngine: ImageSoftmaxEngine
      (eng_datamanager: 'dm) (eng_model: 'm) (eng_optimizer: 'o)
      (eng_scheduler: 's) (eng_use_gpu: bool) (eng_label_smooth: bool)
  | is_ImageTripletEngine: ImageTripletEngine
      (eng_datamanager: 'dm) (eng_model: 'm) (eng_optimizer: 'o)
      (eng_margin: real) (eng_weight_t: real) (eng_weight_x: real)
      (eng_scheduler: 's) (eng_use_gpu: bool) (eng_metric: string)
      (eng_label_smooth: bool) (eng_ranked_loss: bool) (eng_ms_loss: bool)
  | is_ImageCenterEngine: ImageCenterEngine
      (eng_datamanager: 'dm) (eng_model: 'm) (eng_optimizer: 'o)
      (eng_margin: real) (eng_weight_t: real) (eng_weight_x: real) (eng_weight_c: real)
      (eng_scheduler: 's) (eng_use_gpu: bool) (eng_metric: string)
      (eng_feature_dim: int) (eng_label_smooth: bool) (eng_num_features: int)
  | is_ImageOHEMEngine: ImageOHEMEngine
      (eng_datamanager: 'dm) (eng_model: 'm) (eng_optimizer: 'o)
      (eng_margin: real) (eng_weight_t: real) (eng_weight_x: real) (eng_weight_f: real)
      (eng_scheduler: 's) (eng_use_gpu: bool) (eng_metric: string)
      (eng_label_smooth: bool)
  | is_InfenerceEngine: InfenerceEngine
      (eng_datamanager: 'dm) (eng_model: 'm) (eng_use_gpu: bool)

text \<open>The name of the class of an engine.\<close>

fun engine_class :: "('dm, 'm, 'o, 's) engine \<Rightarrow> string" where
  "engine_class (ImageSoftmaxEngine _ _ _ _ _ _) = ''ImageSoftmaxEngine''"
| "engine_class (ImageTripletEngine _ _ _ _ _ _ _ _ _ _ _ _) = ''ImageTripletEngine''"
| "engine_class (ImageCenterEngine _ _ _ _ _ _ _ _ _ _ _ _ _) = ''ImageCenterEngine''"
| "engine_class (ImageOHEMEngine _ _ _ _ _ _ _ _ _ _ _) = ''ImageOHEMEngine''"
| "engine_class (InfenerceEngine _ _ _) = ''InfenerceEngine''"

text \<open>
  The only exception that the code of \<^verbatim>\<open>main.py\<close> raises by itself: reading a local
  variable that no branch has assigned.
\<close>

datatype error = UnboundLocalError

text \<open>
  \<^verbatim>\<open>build_engine\<close> (lines 29 to 92). The local \<^verbatim>\<open>engine\<close> is bound by the branch that runs,
  or by none: the chain on \<^verbatim>\<open>cfg.loss.name\<close> has no final \<^verbatim>\<open>else\<close>. \<^verbatim>\<open>return engine\<close> reads
  the local, and raises \<^verbatim>\<open>UnboundLocalError\<close> when it is unbound.
\<close>

definition build_engine ::
  "config \<Rightarrow> 'dm \<Rightarrow> 'm \<Rightarrow> 'o \<Rightarrow> 's \<Rightarrow> error + ('dm, 'm, 'o, 's) engine" where
  "build_engine cfg datamanager mdl optimizer scheduler =
    (let engine =
      (if is_train (data cfg) then
         if loss_name (loss cfg) = ''softmax'' then
           Some (ImageSoftmaxEngine datamanager mdl optimizer
             scheduler
             (use_gpu cfg)
             (label_smooth (softmax (loss cfg))))
         else if loss_name (loss cfg) = ''triplet'' then
           Some (ImageTripletEngine datamanager mdl optimizer
             (triplet_margin (triplet (loss cfg)))
             (triplet_weight_t (triplet (loss cfg)))
             (triplet_weight_x (triplet (loss cfg)))
             scheduler
             (use_gpu cfg)
             (triplet_metric (triplet (loss cfg)))
             (label_smooth (softmax (loss cfg)))
             (ranked_loss (triplet (loss cfg)))
             (ms_loss (triplet (loss cfg))))
         else if loss_name (loss cfg) = ''center'' then
           Some (ImageCenterEngine datamanager mdl optimizer
             (triplet_margin (triplet (loss cfg)))
             (center_weight_t (center (loss cfg)))
             (center_weight_x (center (loss cfg)))
             (weight_c (center (loss cfg)))
             scheduler
             (use_gpu cfg)
             (triplet_metric (triplet (loss cfg)))
             (feature_dim (center (loss cfg)))
             (label_smooth (softmax (loss cfg)))
             (num_features (center (loss cfg))))
         else if loss_name (loss cfg) = ''ohem'' then
           Some (ImageOHEMEngine datamanager mdl optimizer
             (triplet_margin (triplet (loss cfg)))
             (ohem_weight_t (ohem (loss cfg)))
             (ohem_weight_x (ohem (loss cfg)))
             (weight_f (ohem (loss cfg)))
             scheduler
             (use_gpu cfg)
             (triplet_metric (triplet (loss cfg)))
             (label_smooth (softmax (loss cfg))))
         else None
       else
         Some (InfenerceEngine datamanager mdl (use_gpu cfg)))
     in case engine of None \<Rightarrow> Inl UnboundLocalError | Some e \<Rightarrow> Inr e)"

section \<open>The collaborators of \<^verbatim>\<open>main\<close>\<close>

text \<open>
  Everything \<^verbatim>\<open>main\<close> calls outside \<^verbatim>\<open>main.py\<close> is a field of a record, so that every
  theorem below holds for any behaviour of these collaborators:
  \<^item> \<open>get_default_config\<close>, \<open>merge_from_file\<close>, \<open>merge_from_list\<close>: the default configuration
    and the two merges of the configuration node (in place in the code, a new configuration
    here);
  \<^item> \<open>cuda_is_available\<close>: what \<^verbatim>\<open>torch.cuda.is_available()\<close> answers;
  \<^item> \<open>strftime\<close>: what \<^verbatim>\<open>time.strftime('-%Y-%m-%d-%H-%M-%S')\<close> returns;
  \<^item> \<open>image_data_manager cfg\<close>: \<^verbatim>\<open>ImageDataManager(**imagedata_kwargs(cfg))\<close>, and
    \<open>num_train_pids\<close> its attribute;
  \<^item> \<open>build_model name num_classes loss pretrained use_gpu\<close>;
  \<^item> \<open>check_isfile\<close>, \<open>load_pretrained_weights model path\<close> (the model after the call);
  \<^item> \<open>data_parallel_cuda model\<close>: \<^verbatim>\<open>nn.DataParallel(model).cuda()\<close>;
  \<^item> \<open>build_optimizer model cfg\<close>: \<^verbatim>\<open>build_optimizer(model, **optimizer_kwargs(cfg))\<close>, and
    \<open>build_lr_scheduler optimizer cfg\<close> likewise;
  \<^item> \<open>resume_from_checkpoint path model optimizer\<close>: the value returned, with the model and
    the optimizer after the call (the code mutates both in place).
  The fields say what a call returns when it returns. \<open>main\<close> below is the run in which
  every call returns; \<open>run_main\<close>, further down, ends the run at the first call that
  raises.
\<close>

record ('dm, 'm, 'o, 's) world =
  get_default_config :: config
  cuda_is_available :: bool
  merge_from_file :: "string \<Rightarrow> config \<Rightarrow> config"
  merge_from_list :: "string list \<Rightarrow> config \<Rightarrow> config"
  strftime :: string
  image_data_manager :: "config \<Rightarrow> 'dm"
  num_train_pids :: "'dm \<Rightarrow> int"
  build_model :: "string \<Rightarrow> int \<Rightarrow> string \<Rightarrow> bool \<Rightarrow> bool \<Rightarrow> 'm"
  check_isfile :: "string \<Rightarrow> bool"
  load_pretrained_weights :: "'m \<Rightarrow> string \<Rightarrow> 'm"
  data_parallel_cuda :: "'m \<Rightarrow> 'm"
  build_optimizer :: "'m \<Rightarrow> config \<Rightarrow> 'o"
  build_lr_scheduler :: "'o \<Rightarrow> config \<Rightarrow> 's"
  resume_from_checkpoint :: "string \<Rightarrow> 'm \<Rightarrow> 'o \<Rightarrow> int \<times> 'm \<times> 'o"

text \<open>
  Modelled from the spec: \<^verbatim>\<open>engine_run_kwargs\<close> of the module \<^verbatim>\<open>default_config\<close>, which is
  not part of the sources at hand. The run configuration enumerates \<^verbatim>\<open>start_epoch\<close> and
  \<^verbatim>\<open>max_epoch\<close> among others, and the configuration surface has \<^verbatim>\<open>train.start_epoch\<close> and
  \<^verbatim>\<open>train.max_epoch\<close>; only these two are kept.
\<close>

record run_kwargs =
  rk_start_epoch :: int
  rk_max_epoch :: int

definition engine_run_kwargs :: "config \<Rightarrow> run_kwargs" where
  "engine_run_kwargs cfg =
    \<lparr>rk_start_epoch = start_epoch (train cfg), rk_max_epoch = max_epoch (train cfg)\<rparr>"

text \<open>
  Modelled from the spec: the start epoch that restoring a checkpoint yields
  (\<^verbatim>\<open>resume_from_checkpoint\<close> of the module \<^verbatim>\<open>utils\<close>, not part of the sources at hand): the
  restored checkpoint's epoch + 1.
\<close>

definition spec_restored_start_epoch :: "int \<Rightarrow> int" where
  "spec_restored_start_epoch checkpoint_epoch = checkpoint_epoch + 1"

text \<open>
  Modelled from the spec: the epochs that \<^verbatim>\<open>engine.run\<close> (module \<^verbatim>\<open>engine\<close>, not part of the
  sources at hand) runs, numbered as the spec's scenario numbers them: from the start epoch
  to \<^verbatim>\<open>max_epoch\<close>.
\<close>

definition spec_epochs_run :: "run_kwargs \<Rightarrow> int list" where
  "spec_epochs_run kw = [rk_start_epoch kw .. rk_max_epoch kw]"

section \<open>The effects of \<^verbatim>\<open>main\<close>\<close>

text \<open>
  The calls that leave \<^verbatim>\<open>main.py\<close>, in the order they are made, with their arguments.
  \<open>SetRandomSeed\<close> and \<open>SetStdout\<close> change the state of the whole process: the seed of the
  random number generators, and \<^verbatim>\<open>sys.stdout\<close>, which becomes
  \<^verbatim>\<open>Logger(osp.join(save_dir, log_name))\<close>. The \<^verbatim>\<open>print\<close> calls write to \<^verbatim>\<open>sys.stdout\<close> and
  are not recorded.
\<close>

datatype ('dm, 'm, 'o, 's) event =
    is_CudaIsAvailable: CudaIsAvailable
  | is_MergeFromFile: MergeFromFile string
  | is_MergeFromList: MergeFromList "string list"
  | is_SetRandomSeed: SetRandomSeed int
  | is_SetStdout: SetStdout string string
  | is_BuildDataManager: BuildDataManager config
  | is_BuildModel: BuildModel string int string bool bool
  | is_CheckIsfile: CheckIsfile string
  | is_LoadPretrainedWeights: LoadPretrainedWeights 'm string
  | is_DataParallelCuda: DataParallelCuda 'm
  | is_BuildOptimizer: BuildOptimizer 'm config
  | is_BuildLrScheduler: BuildLrScheduler 'o config
  | is_ResumeFromCheckpoint: ResumeFromCheckpoint string 'm 'o
  | is_EngineInit: EngineInit "('dm, 'm, 'o, 's) engine"
  | is_EngineRun: EngineRun "('dm, 'm, 'o, 's) engine" run_kwargs

datatype sink = Console | Logger string string

text \<open>
  The state \<^verbatim>\<open>main\<close> works on: the configuration node, the two pieces of process-wide
  state, the locals, and the calls made so far. The locals \<^verbatim>\<open>optimizer\<close> and \<^verbatim>\<open>scheduler\<close>
  are unbound until line 152 and line 153.
\<close>

record ('dm, 'm, 'o, 's) state =
  st_cfg :: config
  st_seed :: "int option"
  st_stdout :: sink
  st_datamanager :: 'dm
  st_model :: 'm
  st_optimizer :: "'o option"
  st_scheduler :: "'s option"
  st_trace :: "('dm, 'm, 'o, 's) event list"

text \<open>
  The command line after \<^verbatim>\<open>parse_args\<close>: \<^verbatim>\<open>--config_file\<close> and \<^verbatim>\<open>--root\<close> default to the
  empty string, the three \<^verbatim>\<open>nargs='+'\<close> options to \<^verbatim>\<open>None\<close>, and \<^verbatim>\<open>opts\<close> is the list of
  the remaining words.
\<close>

record args =
  config_file :: string
  args_sources :: "string list option"
  args_targets :: "string list option"
  args_transforms :: "string list option"
  args_root :: string
  opts :: "string list"

text \<open>Python's truth value of \<^verbatim>\<open>None\<close> or a list.\<close>

fun truthy :: "'a list option \<Rightarrow> bool" where
  "truthy None = False"
| "truthy (Some xs) = (xs \<noteq> [])"

text \<open>\<^verbatim>\<open>reset_config\<close> (lines 95 to 103).\<close>

definition reset_config :: "config \<Rightarrow> args \<Rightarrow> config" where
  "reset_config cfg a =
    (let cfg = (if args_root a \<noteq> []
                then cfg\<lparr>data := (data cfg)\<lparr>data_root := args_root a\<rparr>\<rparr> else cfg);
         cfg = (if truthy (args_sources a)
                then cfg\<lparr>data := (data cfg)\<lparr>data_sources := the (args_sources a)\<rparr>\<rparr> else cfg);
         cfg = (if truthy (args_targets a)
                then cfg\<lparr>data := (data cfg)\<lparr>data_targets := the (args_targets a)\<rparr>\<rparr> else cfg);
         cfg = (if truthy (args_transforms a)
                then cfg\<lparr>data := (data cfg)\<lparr>data_transforms := the (args_transforms a)\<rparr>\<rparr>
                else cfg)
     in cfg)"

text \<open>
  Lines 117 to 122 of \<^verbatim>\<open>main\<close>: the default configuration, the probe of the GPU written to
  \<^verbatim>\<open>cfg.use_gpu\<close>, then the configuration file, the command line options and \<^verbatim>\<open>opts\<close> merged
  over it, in this order.
\<close>

definition resolve_config :: "('dm, 'm, 'o, 's) world \<Rightarrow> args \<Rightarrow> config" where
  "resolve_config w a =
    (let cfg = get_default_config w;
         cfg = cfg\<lparr>use_gpu := cuda_is_available w\<rparr>;
         cfg = (if config_file a \<noteq> [] then merge_from_file w (config_file a) cfg else cfg);
         cfg = reset_config cfg a;
         cfg = merge_from_list w (opts a) cfg
     in cfg)"

definition resolve_trace :: "args \<Rightarrow> ('dm, 'm, 'o, 's) event list" where
  "resolve_trace a =
    [CudaIsAvailable]
    @ (if config_file a \<noteq> [] then [MergeFromFile (config_file a)] else [])
    @ [MergeFromList (opts a)]"

text \<open>\<^verbatim>\<open>build_datamanager\<close> (lines 25 and 26).\<close>

definition build_datamanager :: "('dm, 'm, 'o, 's) world \<Rightarrow> config \<Rightarrow> 'dm" where
  "build_datamanager w cfg = image_data_manager w cfg"

text \<open>
  Lines 117 to 142 of \<^verbatim>\<open>main\<close>: the configuration, the seed, the log, the data manager and
  the model.
\<close>

definition startup :: "('dm, 'm, 'o, 's) world \<Rightarrow> args \<Rightarrow> ('dm, 'm, 'o, 's) state" where
  "startup w a =
    (let cfg = resolve_config w a;
         log_name = (if evaluate (test cfg) then ''test.log'' else ''train.log'');
         log_name = log_name @ strftime w;
         datamanager = build_datamanager w cfg;
         mdl = build_model w (model_name (model cfg)) (num_train_pids w datamanager)
                 (loss_name (loss cfg)) (pretrained (model cfg)) (use_gpu cfg)
     in \<lparr>st_cfg = cfg,
         st_seed = Some (seed (train cfg)),
         st_stdout = Logger (save_dir (data cfg)) log_name,
         st_datamanager = datamanager,
         st_model = mdl,
         st_optimizer = None,
         st_scheduler = None,
         st_trace = resolve_trace a
           @ [SetRandomSeed (seed (train cfg)),
              SetStdout (save_dir (data cfg)) log_name,
              BuildDataManager cfg,
              BuildModel (model_name (model cfg)) (num_train_pids w datamanager)
                (loss_name (loss cfg)) (pretrained (model cfg)) (use_gpu cfg)]\<rparr>)"

text \<open>
  Lines 146 and 147: the pretrained weights. \<^verbatim>\<open>and\<close> evaluates \<^verbatim>\<open>check_isfile\<close> only when
  the path is not empty.
\<close>

definition load_weights_step ::
  "('dm, 'm, 'o, 's) world \<Rightarrow> ('dm, 'm, 'o, 's) state \<Rightarrow> ('dm, 'm, 'o, 's) state" where
  "load_weights_step w s =
    (let path = load_weights (model (st_cfg s)) in
     if path \<noteq> [] then
       if check_isfile w path then
         s\<lparr>st_model := load_pretrained_weights w (st_model s) path,
           st_trace := st_trace s @ [CheckIsfile path, LoadPretrainedWeights (st_model s) path]\<rparr>
       else s\<lparr>st_trace := st_trace s @ [CheckIsfile path]\<rparr>
     else s)"

text \<open>Lines 149 and 150: the model wrapped and moved to the GPU.\<close>

definition device_step ::
  "('dm, 'm, 'o, 's) world \<Rightarrow> ('dm, 'm, 'o, 's) state \<Rightarrow> ('dm, 'm, 'o, 's) state" where
  "device_step w s =
    (if use_gpu (st_cfg s) then
       s\<lparr>st_model := data_parallel_cuda w (st_model s),
         st_trace := st_trace s @ [DataParallelCuda (st_model s)]\<rparr>
     else s)"

text \<open>Lines 152 and 153: the optimizer and the scheduler.\<close>

definition optim_step ::
  "('dm, 'm, 'o, 's) world \<Rightarrow> ('dm, 'm, 'o, 's) state \<Rightarrow> ('dm, 'm, 'o, 's) state" where
  "optim_step w s =
    (let optimizer = build_optimizer w (st_model s) (st_cfg s);
         scheduler = build_lr_scheduler w optimizer (st_cfg s)
     in s\<lparr>st_optimizer := Some optimizer,
          st_scheduler := Some scheduler,
          st_trace := st_trace s
            @ [BuildOptimizer (st_model s) (st_cfg s), BuildLrScheduler optimizer (st_cfg s)]\<rparr>)"

text \<open>
  Lines 155 and 156: the full resume. The call reads the local \<^verbatim>\<open>optimizer\<close>; the value
  returned is written to \<^verbatim>\<open>cfg.train.start_epoch\<close>.
\<close>

definition resume_step ::
  "('dm, 'm, 'o, 's) world \<Rightarrow> ('dm, 'm, 'o, 's) state \<Rightarrow> error + ('dm, 'm, 'o, 's) state" where
  "resume_step w s =
    (let path = resume (model (st_cfg s)) in
     if path \<noteq> [] then
       if check_isfile w path then
         (case st_optimizer s of
            None \<Rightarrow> Inl UnboundLocalError
          | Some optimizer \<Rightarrow>
              (case resume_from_checkpoint w path (st_model s) optimizer of
                 (epoch, mdl, optimizer') \<Rightarrow>
                   Inr (s\<lparr>st_cfg := (st_cfg s)\<lparr>train := (train (st_cfg s))\<lparr>start_epoch := epoch\<rparr>\<rparr>,
                          st_model := mdl,
                          st_optimizer := Some optimizer',
                          st_trace := st_trace s
                            @ [CheckIsfile path,
                               ResumeFromCheckpoint path (st_model s) optimizer]\<rparr>)))
       else Inr (s\<lparr>st_trace := st_trace s @ [CheckIsfile path]\<rparr>)
     else Inr s)"

text \<open>
  Lines 158 to 160: the engine is built and run. What \<^verbatim>\<open>main\<close> yields is the call
  \<^verbatim>\<open>engine.run(**engine_run_kwargs(cfg))\<close> it ends with, or the exception that stopped it.
\<close>

definition engine_step ::
  "('dm, 'm, 'o, 's) world \<Rightarrow> ('dm, 'm, 'o, 's) state \<Rightarrow>
    ('dm, 'm, 'o, 's) state \<times> (error + ('dm, 'm, 'o, 's) engine \<times> run_kwargs)" where
  "engine_step w s =
    (case st_optimizer s of
       None \<Rightarrow> (s, Inl UnboundLocalError)
     | Some optimizer \<Rightarrow>
        (case st_scheduler s of
           None \<Rightarrow> (s, Inl UnboundLocalError)
         | Some scheduler \<Rightarrow>
            (case build_engine (st_cfg s) (st_datamanager s) (st_model s) optimizer scheduler of
               Inl e \<Rightarrow> (s, Inl e)
             | Inr engine \<Rightarrow>
                 (s\<lparr>st_trace := st_trace s
                      @ [EngineInit engine, EngineRun engine (engine_run_kwargs (st_cfg s))]\<rparr>,
                  Inr (engine, engine_run_kwargs (st_cfg s))))))"

text \<open>Lines 117 to 153 of \<^verbatim>\<open>main\<close>: the state in which line 155 is reached.\<close>

definition prepared :: "('dm, 'm, 'o, 's) world \<Rightarrow> args \<Rightarrow> ('dm, 'm, 'o, 's) state" where
  "prepared w a = optim_step w (device_step w (load_weights_step w (startup w a)))"

text \<open>\<^verbatim>\<open>main\<close> (lines 106 to 160): the state it ends in, and what it yields.\<close>

definition main ::
  "('dm, 'm, 'o, 's) world \<Rightarrow> args \<Rightarrow>
    ('dm, 'm, 'o, 's) state \<times> (error + ('dm, 'm, 'o, 's) engine \<times> run_kwargs)" where
  "main w a =
    (let s = prepared w a in
     case resume_step w s of
       Inl e \<Rightarrow> (s, Inl e)
     | Inr s' \<Rightarrow> engine_step w s')"

text \<open>
  The condition of lines 146 and 155: the path is set and \<^verbatim>\<open>check_isfile\<close> finds a file
  there.
\<close>

definition names_file :: "('dm, 'm, 'o, 's) world \<Rightarrow> string \<Rightarrow> bool" where
  "names_file w path = (path \<noteq> [] \<and> check_isfile w path)"

section \<open>A sample run\<close>

text \<open>
  One world to run \<^verbatim>\<open>main\<close> in: every object is the term of the calls that made it, so
  that a run shows what was called on what. Its \<open>merge_from_list\<close> reads \<^verbatim>\<open>opts\<close> as the
  configuration node does, a key followed by its value, for the five keys below; its
  \<open>merge_from_file\<close> finds an empty file. Two files exist, a checkpoint saved at epoch 10
  and a file of pretrained weights.
\<close>

datatype sample_datamanager = ImageDataManager "string list"

datatype sample_model =
    Net string int string bool bool
  | Pretrained sample_model string
  | DataParallelCuda_of sample_model
  | ResumedModel sample_model string

datatype sample_optimizer =
    Optimizer sample_model
  | ResumedOptimizer sample_optimizer string

datatype sample_scheduler = Scheduler sample_optimizer

definition sample_config :: config where
  "sample_config =
    \<lparr>use_gpu = True,
     data = \<lparr>is_train = True, data_root = ''reid-data'', data_sources = [''market1501''],
             data_targets = [''market1501''], data_transforms = [''random_flip''],
             save_dir = ''log'', data_type = ''image''\<rparr>,
     loss = \<lparr>loss_name = ''softmax'',
             softmax = \<lparr>label_smooth = True\<rparr>,
             triplet = \<lparr>triplet_margin = 0.3, triplet_weight_t = 1, triplet_weight_x = 0,
                        triplet_metric = ''euclidean'', ranked_loss = False, ms_loss = False\<rparr>,
             center = \<lparr>center_weight_t = 1, center_weight_x = 1, weight_c = 0.0005,
                       feature_dim = 2048, num_features = 1\<rparr>,
             ohem = \<lparr>ohem_weight_t = 1, ohem_weight_x = 1, weight_f = 1\<rparr>\<rparr>,
     model = \<lparr>model_name = ''resnet50'', pretrained = True, load_weights = [],
              resume = []\<rparr>,
     train = \<lparr>seed = 1, start_epoch = 0, max_epoch = 20\<rparr>,
     test = \<lparr>evaluate = False\<rparr>\<rparr>"

definition sample_set_key :: "string \<Rightarrow> string \<Rightarrow> config \<Rightarrow> config" where
  "sample_set_key k v cfg =
    (if k = ''use_gpu'' then cfg\<lparr>use_gpu := (v = ''True'')\<rparr>
     else if k = ''data.is_train'' then cfg\<lparr>data := (data cfg)\<lparr>is_train := (v = ''True'')\<rparr>\<rparr>
     else if k = ''loss.name'' then cfg\<lparr>loss := (loss cfg)\<lparr>loss_name := v\<rparr>\<rparr>
     else if k = ''model.load_weights'' then cfg\<lparr>model := (model cfg)\<lparr>load_weights := v\<rparr>\<rparr>
     else if k = ''model.resume'' then cfg\<lparr>model := (model cfg)\<lparr>resume := v\<rparr>\<rparr>
     else cfg)"

fun sample_merge_from_list :: "string list \<Rightarrow> config \<Rightarrow> config" where
  "sample_merge_from_list (k # v # rest) cfg = sample_merge_from_list rest (sample_set_key k v cfg)"
| "sample_merge_from_list _ cfg = cfg"

definition sample_world ::
  "(sample_datamanager, sample_model, sample_optimizer, sample_scheduler) world" where
  "sample_world =
    \<lparr>get_default_config = sample_config,
     cuda_is_available = True,
     merge_from_file = (\<lambda>path cfg. cfg),
     merge_from_list = sample_merge_from_list,
     strftime = ''-2019-11-20-10-00-00'',
     image_data_manager = (\<lambda>cfg. ImageDataManager (data_sources (data cfg))),
     num_train_pids = (\<lambda>dm. 751),
     build_model = Net,
     check_isfile = (\<lambda>path. path = ''log/model.pth.tar-10'' \<or> path = ''pretrained.pth''),
     load_pretrained_weights = Pretrained,
     data_parallel_cuda = DataParallelCuda_of,
     build_optimizer = (\<lambda>mdl cfg. Optimizer mdl),
     build_lr_scheduler = (\<lambda>optimizer cfg. Scheduler optimizer),
     resume_from_checkpoint = (\<lambda>path mdl optimizer.
       (spec_restored_start_epoch 10, ResumedModel mdl path, ResumedOptimizer optimizer path))\<rparr>"

text \<open>The command line with no option given.\<close>

definition sample_args :: args where
  "sample_args =
    \<lparr>config_file = [], args_sources = None, args_targets = None, args_transforms = None,
     args_root = [], opts = []\<rparr>"

text \<open>
  Lines 117 to 156 of \<^verbatim>\<open>main\<close>: the state in which line 158 is reached. The local
  \<^verbatim>\<open>optimizer\<close> is bound by then (see \<open>resume_step_prepared\<close> below), so the other case
  never applies.
\<close>

definition resumed :: "('dm, 'm, 'o, 's) world \<Rightarrow> args \<Rightarrow> ('dm, 'm, 'o, 's) state" where
  "resumed w a = (case resume_step w (prepared w a) of Inr s \<Rightarrow> s | Inl e \<Rightarrow> prepared w a)"

section \<open>Calls that raise\<close>

text \<open>
  \<^verbatim>\<open>main.py\<close> catches no exception: a call that raises ends the run there, and nothing
  after it is called. Given which calls raise, \<open>calls_until\<close> yields the calls made, the
  raising one last, and that call if there is one.
\<close>

fun calls_until :: "('e \<Rightarrow> bool) \<Rightarrow> 'e list \<Rightarrow> 'e list \<times> 'e option" where
  "calls_until raises [] = ([], None)"
| "calls_until raises (ev # evs) =
     (if raises ev then ([ev], Some ev)
      else (case calls_until raises evs of (made, r) \<Rightarrow> (ev # made, r)))"

text \<open>
  How a run ends: with the exception of a call, or as \<^verbatim>\<open>main\<close> itself ends (the call of
  \<^verbatim>\<open>engine.run\<close> returned, or \<^verbatim>\<open>UnboundLocalError\<close>).
\<close>

datatype ('dm, 'm, 'o, 's) ending =
    CallRaised "('dm, 'm, 'o, 's) event"
  | Ended "error + ('dm, 'm, 'o, 's) engine \<times> run_kwargs"

text \<open>
  The run of \<^verbatim>\<open>main\<close> when the calls that \<open>raises\<close> holds of raise: the calls made, and how
  the run ends.
\<close>

definition run_main ::
  "('dm, 'm, 'o, 's) world \<Rightarrow> (('dm, 'm, 'o, 's) event \<Rightarrow> bool) \<Rightarrow> args \<Rightarrow>
    ('dm, 'm, 'o, 's) event list \<times> ('dm, 'm, 'o, 's) ending" where
  "run_main w raises a =
    (case calls_until raises (st_trace (fst (main w a))) of
       (made, Some ev) \<Rightarrow> (made, CallRaised ev)
     | (made, None) \<Rightarrow> (made, Ended (snd (main w a))))"

text \<open>
  What raises in the sample world: moving the model to the GPU when there is none, and
  loading from a path that is not one of its two files.
\<close>

fun sample_raises ::
  "bool \<Rightarrow> (sample_datamanager, sample_model, sample_optimizer, sample_scheduler) event \<Rightarrow> bool"
  where
  "sample_raises gpu (DataParallelCuda m) = (\<not> gpu)"
| "sample_raises gpu (LoadPretrainedWeights m path) = (path \<noteq> ''pretrained.pth'')"
| "sample_raises gpu (ResumeFromCheckpoint path m optimizer) = (path \<noteq> ''log/model.pth.tar-10'')"
| "sample_raises gpu _ = False"

text \<open>
  The number of identity logits of a model of the sample world: the \<^verbatim>\<open>num_classes\<close> it was
  built with.
\<close>

fun sample_num_logits :: "sample_model \<Rightarrow> int" where
  "sample_num_logits (Net name num_classes loss_n pre gpu) = num_classes"
| "sample_num_logits (Pretrained m path) = sample_num_logits m"
| "sample_num_logits (DataParallelCuda_of m) = sample_num_logits m"
| "sample_num_logits (ResumedModel m path) = sample_num_logits m"

text \<open>Command lines and configurations of the sample runs below.\<close>

definition unsupported_args :: args where
  "unsupported_args = sample_args\<lparr>opts := [''loss.name'', ''arcface'']\<rparr>"

definition test_config :: config where
  "test_config = sample_config\<lparr>data := (data sample_config)\<lparr>is_train := False\<rparr>\<rparr>"

definition center_config :: config where
  "center_config = sample_config\<lparr>loss := (loss sample_config)\<lparr>loss_name := ''center''\<rparr>\<rparr>"

definition center_config_wide_margin :: config where
  "center_config_wide_margin =
    center_config\<lparr>loss := (loss center_config)
      \<lparr>triplet := (triplet (loss center_config))\<lparr>triplet_margin := 0.5\<rparr>\<rparr>\<rparr>"

definition sample_center_engine :: "(unit, unit, unit, unit) engine" where
  "sample_center_engine =
     ImageCenterEngine () () () 0.3 1 1 0.0005 () True ''euclidean'' 2048 True 1"

definition other_seed_world ::
  "(sample_datamanager, sample_model, sample_optimizer, sample_scheduler) world" where
  "other_seed_world =
     sample_world\<lparr>get_default_config :=
       sample_config\<lparr>train := (train sample_config)\<lparr>seed := 2\<rparr>\<rparr>\<rparr>"



definition resume_args :: args where
  "resume_args = sample_args\<lparr>opts := [''model.resume'', ''log/model.pth.tar-10'']\<rparr>"

definition pretrained_args :: args where
  "pretrained_args = sample_args\<lparr>opts := [''model.load_weights'', ''pretrained.pth'']\<rparr>"

definition missing_files_args :: args where
  "missing_files_args =
     sample_args\<lparr>opts := [''model.load_weights'', ''missing.pth'', ''model.resume'', ''gone.pth'']\<rparr>"

section \<open>The steps of \<^verbatim>\<open>main\<close>, one field at a time\<close>

text \<open>
  What \<^verbatim>\<open>build_engine\<close> returns in each of its branches, and what each step of \<^verbatim>\<open>main\<close>
  does to each field of the state.
\<close>

lemma build_engine_softmax:
  "is_train (data cfg) \<Longrightarrow> loss_name (loss cfg) = ''softmax'' \<Longrightarrow>
   build_engine cfg dm m opt sch =
     Inr (ImageSoftmaxEngine dm m opt sch (use_gpu cfg) (label_smooth (softmax (loss cfg))))"
  by (simp add: build_engine_def)

lemma build_engine_triplet:
  "is_train (data cfg) \<Longrightarrow> loss_name (loss cfg) = ''triplet'' \<Longrightarrow>
   build_engine cfg dm m opt sch =
     Inr (ImageTripletEngine dm m opt
       (triplet_margin (triplet (loss cfg))) (triplet_weight_t (triplet (loss cfg)))
       (triplet_weight_x (triplet (loss cfg))) sch (use_gpu cfg)
       (triplet_metric (triplet (loss cfg))) (label_smooth (softmax (loss cfg)))
       (ranked_loss (triplet (loss cfg))) (ms_loss (triplet (loss cfg))))"
  by (simp add: build_engine_def)

lemma build_engine_center:
  "is_train (data cfg) \<Longrightarrow> loss_name (loss cfg) = ''center'' \<Longrightarrow>
   build_engine cfg dm m opt sch =
     Inr (ImageCenterEngine dm m opt
       (triplet_margin (triplet (loss cfg))) (center_weight_t (center (loss cfg)))
       (center_weight_x (center (loss cfg))) (weight_c (center (loss cfg))) sch (use_gpu cfg)
       (triplet_metric (triplet (loss cfg))) (feature_dim (center (loss cfg)))
       (label_smooth (softmax (loss cfg))) (num_features (center (loss cfg))))"
  by (simp add: build_engine_def)

lemma build_engine_ohem:
  "is_train (data cfg) \<Longrightarrow> loss_name (loss cfg) = ''ohem'' \<Longrightarrow>
   build_engine cfg dm m opt sch =
     Inr (ImageOHEMEngine dm m opt
       (triplet_margin (triplet (loss cfg))) (ohem_weight_t (ohem (loss cfg)))
       (ohem_weight_x (ohem (loss cfg))) (weight_f (ohem (loss cfg))) sch (use_gpu cfg)
       (triplet_metric (triplet (loss cfg))) (label_smooth (softmax (loss cfg))))"
  by (simp add: build_engine_def)

lemma build_engine_inference:
  "\<not> is_train (data cfg) \<Longrightarrow>
   build_engine cfg dm m opt sch = Inr (InfenerceEngine dm m (use_gpu cfg))"
  by (simp add: build_engine_def)

lemma build_engine_unsupported:
  "is_train (data cfg) \<Longrightarrow>
   loss_name (loss cfg) \<notin> {''softmax'', ''triplet'', ''center'', ''ohem''} \<Longrightarrow>
   build_engine cfg dm m opt sch = Inl UnboundLocalError"
  by (simp add: build_engine_def)

lemma build_engine_cases:
  obtains (softmax) "is_train (data cfg)" "loss_name (loss cfg) = ''softmax''"
  | (triplet) "is_train (data cfg)" "loss_name (loss cfg) = ''triplet''"
  | (center) "is_train (data cfg)" "loss_name (loss cfg) = ''center''"
  | (ohem) "is_train (data cfg)" "loss_name (loss cfg) = ''ohem''"
  | (unsupported) "is_train (data cfg)"
      "loss_name (loss cfg) \<notin> {''softmax'', ''triplet'', ''center'', ''ohem''}"
  | (inference) "\<not> is_train (data cfg)"
  by blast


lemma build_engine_objects:
  "build_engine cfg dm m opt sch = Inr e \<Longrightarrow> eng_datamanager e = dm \<and> eng_model e = m"
  by (cases cfg rule: build_engine_cases)
    (auto simp: build_engine_softmax build_engine_triplet build_engine_center build_engine_ohem
       build_engine_unsupported build_engine_inference)

lemma load_weights_step_frame:
  "st_cfg (load_weights_step w s) = st_cfg s"
  "st_seed (load_weights_step w s) = st_seed s"
  "st_stdout (load_weights_step w s) = st_stdout s"
  "st_datamanager (load_weights_step w s) = st_datamanager s"
  "st_optimizer (load_weights_step w s) = st_optimizer s"
  "st_scheduler (load_weights_step w s) = st_scheduler s"
  by (simp_all add: load_weights_step_def Let_def)

lemma load_weights_step_model:
  "st_model (load_weights_step w s) =
    (if names_file w (load_weights (model (st_cfg s)))
     then load_pretrained_weights w (st_model s) (load_weights (model (st_cfg s)))
     else st_model s)"
  by (simp add: load_weights_step_def names_file_def Let_def)

lemma load_weights_step_trace:
  "st_trace (load_weights_step w s) = st_trace s @
    (if load_weights (model (st_cfg s)) = [] then []
     else CheckIsfile (load_weights (model (st_cfg s))) #
       (if check_isfile w (load_weights (model (st_cfg s)))
        then [LoadPretrainedWeights (st_model s) (load_weights (model (st_cfg s)))] else []))"
  by (simp add: load_weights_step_def Let_def)

lemma device_step_frame:
  "st_cfg (device_step w s) = st_cfg s"
  "st_seed (device_step w s) = st_seed s"
  "st_stdout (device_step w s) = st_stdout s"
  "st_datamanager (device_step w s) = st_datamanager s"
  "st_optimizer (device_step w s) = st_optimizer s"
  "st_scheduler (device_step w s) = st_scheduler s"
  by (simp_all add: device_step_def)

lemma device_step_model:
  "st_model (device_step w s) =
    (if use_gpu (st_cfg s) then data_parallel_cuda w (st_model s) else st_model s)"
  by (simp add: device_step_def)

lemma device_step_trace:
  "st_trace (device_step w s) = st_trace s @
    (if use_gpu (st_cfg s) then [DataParallelCuda (st_model s)] else [])"
  by (simp add: device_step_def)

lemma optim_step_frame:
  "st_cfg (optim_step w s) = st_cfg s"
  "st_seed (optim_step w s) = st_seed s"
  "st_stdout (optim_step w s) = st_stdout s"
  "st_datamanager (optim_step w s) = st_datamanager s"
  "st_model (optim_step w s) = st_model s"
  by (simp_all add: optim_step_def Let_def)

lemma optim_step_objects:
  "st_optimizer (optim_step w s) = Some (build_optimizer w (st_model s) (st_cfg s))"
  "st_scheduler (optim_step w s) =
     Some (build_lr_scheduler w (build_optimizer w (st_model s) (st_cfg s)) (st_cfg s))"
  by (simp_all add: optim_step_def Let_def)

lemma optim_step_trace:
  "st_trace (optim_step w s) = st_trace s @
    [BuildOptimizer (st_model s) (st_cfg s),
     BuildLrScheduler (build_optimizer w (st_model s) (st_cfg s)) (st_cfg s)]"
  by (simp add: optim_step_def Let_def)

lemma startup_fields:
  "st_cfg (startup w a) = resolve_config w a"
  "st_seed (startup w a) = Some (seed (train (resolve_config w a)))"
  "st_stdout (startup w a) = Logger (save_dir (data (resolve_config w a)))
     ((if evaluate (test (resolve_config w a)) then ''test.log'' else ''train.log'') @ strftime w)"
  "st_datamanager (startup w a) = build_datamanager w (resolve_config w a)"
  "st_model (startup w a) =
     build_model w (model_name (model (resolve_config w a)))
       (num_train_pids w (build_datamanager w (resolve_config w a)))
       (loss_name (loss (resolve_config w a))) (pretrained (model (resolve_config w a)))
       (use_gpu (resolve_config w a))"
  "st_optimizer (startup w a) = None"
  "st_scheduler (startup w a) = None"
  by (simp_all add: startup_def Let_def)

lemma startup_trace:
  "st_trace (startup w a) = resolve_trace a @
     [SetRandomSeed (seed (train (resolve_config w a))),
      SetStdout (save_dir (data (resolve_config w a)))
        ((if evaluate (test (resolve_config w a)) then ''test.log'' else ''train.log'') @ strftime w),
      BuildDataManager (resolve_config w a),
      BuildModel (model_name (model (resolve_config w a)))
       (num_train_pids w (build_datamanager w (resolve_config w a)))
       (loss_name (loss (resolve_config w a))) (pretrained (model (resolve_config w a)))
       (use_gpu (resolve_config w a))]"
  by (simp add: startup_def Let_def)


lemma prepared_frame:
  "st_cfg (prepared w a) = resolve_config w a"
  "st_seed (prepared w a) = st_seed (startup w a)"
  "st_stdout (prepared w a) = st_stdout (startup w a)"
  "st_datamanager (prepared w a) = build_datamanager w (resolve_config w a)"
  by (simp_all add: prepared_def optim_step_frame device_step_frame load_weights_step_frame
      startup_fields)

lemma prepared_model:
  "st_model (prepared w a) = st_model (device_step w (load_weights_step w (startup w a)))"
  by (simp add: prepared_def optim_step_frame)

lemma prepared_objects:
  "st_optimizer (prepared w a) =
     Some (build_optimizer w (st_model (prepared w a)) (resolve_config w a))"
  "st_scheduler (prepared w a) =
     Some (build_lr_scheduler w
       (build_optimizer w (st_model (prepared w a)) (resolve_config w a)) (resolve_config w a))"
  by (simp_all add: prepared_def optim_step_objects optim_step_frame device_step_frame
      load_weights_step_frame startup_fields)

lemma prepared_trace:
  "st_trace (prepared w a) =
     st_trace (startup w a)
     @ (if load_weights (model (resolve_config w a)) = [] then []
        else CheckIsfile (load_weights (model (resolve_config w a))) #
          (if check_isfile w (load_weights (model (resolve_config w a)))
           then [LoadPretrainedWeights (st_model (startup w a))
                   (load_weights (model (resolve_config w a)))] else []))
     @ (if use_gpu (resolve_config w a)
        then [DataParallelCuda (st_model (load_weights_step w (startup w a)))] else [])
     @ [BuildOptimizer (st_model (prepared w a)) (resolve_config w a),
        BuildLrScheduler (build_optimizer w (st_model (prepared w a)) (resolve_config w a))
          (resolve_config w a)]"
  by (simp add: prepared_def optim_step_trace device_step_trace load_weights_step_trace
      optim_step_frame device_step_frame load_weights_step_frame startup_fields)

lemma resume_step_bound:
  assumes "st_optimizer s = Some opt"
  shows "resume_step w s = Inr
    (if names_file w (resume (model (st_cfg s))) then
       s\<lparr>st_cfg := (st_cfg s)\<lparr>train := (train (st_cfg s))
            \<lparr>start_epoch := fst (resume_from_checkpoint w (resume (model (st_cfg s))) (st_model s) opt)\<rparr>\<rparr>,
         st_model := fst (snd (resume_from_checkpoint w (resume (model (st_cfg s))) (st_model s) opt)),
         st_optimizer := Some (snd (snd (resume_from_checkpoint w (resume (model (st_cfg s))) (st_model s) opt))),
         st_trace := st_trace s @ [CheckIsfile (resume (model (st_cfg s))),
            ResumeFromCheckpoint (resume (model (st_cfg s))) (st_model s) opt]\<rparr>
     else if resume (model (st_cfg s)) \<noteq> [] then
       s\<lparr>st_trace := st_trace s @ [CheckIsfile (resume (model (st_cfg s)))]\<rparr>
     else s)"
  using assms by (simp add: resume_step_def names_file_def Let_def split: prod.splits)

lemma resume_step_prepared: "resume_step w (prepared w a) = Inr (resumed w a)"
  using resume_step_bound [OF prepared_objects(1), of w w a]
  by (simp add: resumed_def)

lemma resumed_frame:
  "st_seed (resumed w a) = st_seed (startup w a)"
  "st_stdout (resumed w a) = st_stdout (startup w a)"
  "st_datamanager (resumed w a) = build_datamanager w (resolve_config w a)"
  "st_scheduler (resumed w a) = st_scheduler (prepared w a)"
  using resume_step_bound [OF prepared_objects(1), of w w a]
  by (simp_all add: resumed_def prepared_frame)

lemma resumed_cfg:
  "st_cfg (resumed w a) =
    (if names_file w (resume (model (resolve_config w a))) then
       (resolve_config w a)\<lparr>train := (train (resolve_config w a))
          \<lparr>start_epoch := fst (resume_from_checkpoint w (resume (model (resolve_config w a)))
              (st_model (prepared w a))
              (build_optimizer w (st_model (prepared w a)) (resolve_config w a)))\<rparr>\<rparr>
     else resolve_config w a)"
  using resume_step_bound [OF prepared_objects(1), of w w a]
  by (simp add: resumed_def prepared_frame)

lemma resumed_model:
  "st_model (resumed w a) =
    (if names_file w (resume (model (resolve_config w a))) then
       fst (snd (resume_from_checkpoint w (resume (model (resolve_config w a)))
              (st_model (prepared w a))
              (build_optimizer w (st_model (prepared w a)) (resolve_config w a))))
     else st_model (prepared w a))"
  using resume_step_bound [OF prepared_objects(1), of w w a]
  by (simp add: resumed_def prepared_frame)

lemma resumed_optimizer:
  "st_optimizer (resumed w a) = Some
    (if names_file w (resume (model (resolve_config w a))) then
       snd (snd (resume_from_checkpoint w (resume (model (resolve_config w a)))
              (st_model (prepared w a))
              (build_optimizer w (st_model (prepared w a)) (resolve_config w a))))
     else build_optimizer w (st_model (prepared w a)) (resolve_config w a))"
  using resume_step_bound [OF prepared_objects(1), of w w a]
  by (simp add: resumed_def prepared_frame prepared_objects)

lemma resumed_trace:
  "st_trace (resumed w a) = st_trace (prepared w a) @
    (if resume (model (resolve_config w a)) = [] then []
     else CheckIsfile (resume (model (resolve_config w a))) #
       (if check_isfile w (resume (model (resolve_config w a)))
        then [ResumeFromCheckpoint (resume (model (resolve_config w a)))
                (st_model (prepared w a))
                (build_optimizer w (st_model (prepared w a)) (resolve_config w a))]
        else []))"
  using resume_step_bound [OF prepared_objects(1), of w w a]
  by (simp add: resumed_def prepared_frame names_file_def)

lemma resumed_cfg_frame:
  "use_gpu (st_cfg (resumed w a)) = use_gpu (resolve_config w a)"
  "data (st_cfg (resumed w a)) = data (resolve_config w a)"
  "loss (st_cfg (resumed w a)) = loss (resolve_config w a)"
  "model (st_cfg (resumed w a)) = model (resolve_config w a)"
  "test (st_cfg (resumed w a)) = test (resolve_config w a)"
  "seed (train (st_cfg (resumed w a))) = seed (train (resolve_config w a))"
  "max_epoch (train (st_cfg (resumed w a))) = max_epoch (train (resolve_config w a))"
  by (simp_all add: resumed_cfg)

lemma main_resumed: "main w a = engine_step w (resumed w a)"
  by (simp add: main_def resume_step_prepared)

lemma engine_step_bound:
  assumes "st_optimizer s = Some opt" and "st_scheduler s = Some sch"
  shows "engine_step w s =
    (case build_engine (st_cfg s) (st_datamanager s) (st_model s) opt sch of
       Inl e \<Rightarrow> (s, Inl e)
     | Inr engine \<Rightarrow>
         (s\<lparr>st_trace := st_trace s
              @ [EngineInit engine, EngineRun engine (engine_run_kwargs (st_cfg s))]\<rparr>,
          Inr (engine, engine_run_kwargs (st_cfg s))))"
  using assms by (simp add: engine_step_def)

lemma main_fails:
  assumes "is_train (data (resolve_config w a))"
    and "loss_name (loss (resolve_config w a)) \<notin> {''softmax'', ''triplet'', ''center'', ''ohem''}"
  shows "main w a = (resumed w a, Inl UnboundLocalError)"
proof -
  obtain opt sch where o: "st_optimizer (resumed w a) = Some opt"
    and s: "st_scheduler (resumed w a) = Some sch"
    by (simp add: resumed_optimizer resumed_frame prepared_objects)
  have "build_engine (st_cfg (resumed w a)) (st_datamanager (resumed w a))
      (st_model (resumed w a)) opt sch = Inl UnboundLocalError"
    using assms by (intro build_engine_unsupported) (simp_all add: resumed_cfg_frame)
  then show ?thesis
    by (simp add: main_resumed engine_step_bound [OF o s])
qed

lemma main_runs:
  assumes "\<not> is_train (data (resolve_config w a)) \<or>
    loss_name (loss (resolve_config w a)) \<in> {''softmax'', ''triplet'', ''center'', ''ohem''}"
  shows "\<exists>e. build_engine (st_cfg (resumed w a)) (st_datamanager (resumed w a))
        (st_model (resumed w a)) (the (st_optimizer (resumed w a)))
        (the (st_scheduler (resumed w a))) = Inr e \<and>
      main w a =
        ((resumed w a)\<lparr>st_trace := st_trace (resumed w a)
            @ [EngineInit e, EngineRun e (engine_run_kwargs (st_cfg (resumed w a)))]\<rparr>,
         Inr (e, engine_run_kwargs (st_cfg (resumed w a))))"
proof -
  obtain opt sch where o: "st_optimizer (resumed w a) = Some opt"
    and s: "st_scheduler (resumed w a) = Some sch"
    by (simp add: resumed_optimizer resumed_frame prepared_objects)
  have "\<exists>e. build_engine (st_cfg (resumed w a)) (st_datamanager (resumed w a))
      (st_model (resumed w a)) opt sch = Inr e"
    using assms
    by (cases "st_cfg (resumed w a)" rule: build_engine_cases)
      (auto simp: build_engine_softmax build_engine_triplet build_engine_center
        build_engine_ohem build_engine_inference resumed_cfg_frame)
  then obtain e where "build_engine (st_cfg (resumed w a)) (st_datamanager (resumed w a))
      (st_model (resumed w a)) opt sch = Inr e" ..
  then show ?thesis
    by (simp add: main_resumed engine_step_bound [OF o s] o s)
qed

lemma main_state_frame:
  "st_cfg (fst (main w a)) = st_cfg (resumed w a)"
  "st_seed (fst (main w a)) = st_seed (resumed w a)"
  "st_stdout (fst (main w a)) = st_stdout (resumed w a)"
  "st_datamanager (fst (main w a)) = st_datamanager (resumed w a)"
  "st_model (fst (main w a)) = st_model (resumed w a)"
  "st_optimizer (fst (main w a)) = st_optimizer (resumed w a)"
  "st_scheduler (fst (main w a)) = st_scheduler (resumed w a)"
  by (simp_all add: main_resumed engine_step_def split: option.splits sum.splits)

lemma main_trace:
  "st_trace (fst (main w a)) = st_trace (resumed w a) @
    (case snd (main w a) of Inl e \<Rightarrow> [] | Inr (e, kw) \<Rightarrow> [EngineInit e, EngineRun e kw])"
  by (simp add: main_resumed engine_step_def split: option.splits sum.splits)

lemmas run_defs =
  main_def prepared_def startup_def resolve_config_def resolve_trace_def reset_config_def
  build_datamanager_def load_weights_step_def device_step_def optim_step_def resume_step_def
  engine_step_def build_engine_def engine_run_kwargs_def names_file_def
  sample_world_def sample_args_def sample_config_def sample_set_key_def
  spec_restored_start_epoch_def Let_def

lemma trace_before_engine:
  "filter is_EngineInit (st_trace (resumed w a)) = []"
  "filter is_EngineRun (st_trace (resumed w a)) = []"
  by (simp_all add: resumed_trace prepared_trace startup_trace resolve_trace_def)


lemma trace_build_model:
  "filter is_BuildModel (st_trace (resumed w a)) =
    [BuildModel (model_name (model (resolve_config w a)))
       (num_train_pids w (build_datamanager w (resolve_config w a)))
       (loss_name (loss (resolve_config w a))) (pretrained (model (resolve_config w a)))
       (use_gpu (resolve_config w a))]"
  by (simp add: resumed_trace prepared_trace startup_trace resolve_trace_def)

lemma trace_build_datamanager:
  "filter is_BuildDataManager (st_trace (resumed w a)) = [BuildDataManager (resolve_config w a)]"
  by (simp add: resumed_trace prepared_trace startup_trace resolve_trace_def)

lemma trace_optim:
  "filter is_BuildOptimizer (st_trace (resumed w a)) =
     [BuildOptimizer (st_model (prepared w a)) (resolve_config w a)]"
  "filter is_BuildLrScheduler (st_trace (resumed w a)) =
     [BuildLrScheduler (build_optimizer w (st_model (prepared w a)) (resolve_config w a))
        (resolve_config w a)]"
  by (simp_all add: resumed_trace prepared_trace startup_trace resolve_trace_def)


lemma trace_load:
  "filter is_LoadPretrainedWeights (st_trace (resumed w a)) =
     (if names_file w (load_weights (model (resolve_config w a)))
      then [LoadPretrainedWeights (st_model (startup w a))
              (load_weights (model (resolve_config w a)))] else [])"
  by (simp add: resumed_trace prepared_trace startup_trace resolve_trace_def names_file_def)

lemma trace_resume:
  "filter is_ResumeFromCheckpoint (st_trace (resumed w a)) =
     (if names_file w (resume (model (resolve_config w a)))
      then [ResumeFromCheckpoint (resume (model (resolve_config w a)))
              (st_model (prepared w a))
              (build_optimizer w (st_model (prepared w a)) (resolve_config w a))] else [])"
  by (simp add: resumed_trace prepared_trace startup_trace resolve_trace_def names_file_def)

lemma trace_globals:
  "filter is_SetRandomSeed (st_trace (resumed w a)) =
     [SetRandomSeed (seed (train (resolve_config w a)))]"
  "filter is_SetStdout (st_trace (resumed w a)) =
     [SetStdout (save_dir (data (resolve_config w a)))
        ((if evaluate (test (resolve_config w a)) then ''test.log'' else ''train.log'')
          @ strftime w)]"
  by (simp_all add: resumed_trace prepared_trace startup_trace resolve_trace_def)

lemma main_trace_filter:
  "filter P (st_trace (fst (main w a))) = filter P (st_trace (resumed w a)) @
    (case snd (main w a) of Inl e \<Rightarrow> []
     | Inr (e, kw) \<Rightarrow> filter P [EngineInit e, EngineRun e kw])"
  by (simp add: main_trace split: sum.splits)

lemma unsupported_run:
  "is_train (data (resolve_config sample_world unsupported_args))"
  "loss_name (loss (resolve_config sample_world unsupported_args)) = ''arcface''"
  "load_weights (model (resolve_config sample_world unsupported_args)) = []"
  "resume (model (resolve_config sample_world unsupported_args)) = []"
  by (simp_all add: unsupported_args_def resolve_config_def reset_config_def sample_world_def
      sample_args_def sample_config_def sample_set_key_def Let_def)

lemma sample_resolve: "resolve_config sample_world sample_args = sample_config"
  by (simp add: resolve_config_def reset_config_def sample_world_def sample_args_def
      sample_config_def Let_def)

lemma main_result:
  "snd (main w a) =
    (case build_engine (st_cfg (resumed w a)) (st_datamanager (resumed w a))
        (st_model (resumed w a)) (the (st_optimizer (resumed w a)))
        (the (st_scheduler (resumed w a))) of
       Inl e \<Rightarrow> Inl e
     | Inr e \<Rightarrow> Inr (e, engine_run_kwargs (st_cfg (resumed w a))))"
  by (simp add: main_resumed engine_step_def resumed_optimizer resumed_frame prepared_objects
      split: sum.splits)

lemma main_result_engine:
  assumes "snd (main w a) = Inr (e, kw)"
  shows "build_engine (st_cfg (resumed w a)) (st_datamanager (resumed w a))
        (st_model (resumed w a)) (the (st_optimizer (resumed w a)))
        (the (st_scheduler (resumed w a))) = Inr e"
    and "kw = engine_run_kwargs (st_cfg (resumed w a))"
  using assms by (simp_all add: main_result split: sum.splits)




lemma main_runs_result:
  assumes "\<not> is_train (data (resolve_config w a)) \<or>
    loss_name (loss (resolve_config w a)) \<in> {''softmax'', ''triplet'', ''center'', ''ohem''}"
  shows "\<exists>e kw. snd (main w a) = Inr (e, kw)"
  using main_runs [OF assms] by auto


lemma sample_world_fields:
  "check_isfile sample_world =
     (\<lambda>path. path = ''log/model.pth.tar-10'' \<or> path = ''pretrained.pth'')"
  "num_train_pids sample_world = (\<lambda>dm. 751)"
  "build_optimizer sample_world = (\<lambda>mdl cfg. Optimizer mdl)"
  "resume_from_checkpoint sample_world = (\<lambda>path mdl optimizer.
       (spec_restored_start_epoch 10, ResumedModel mdl path, ResumedOptimizer optimizer path))"
  "strftime sample_world = ''-2019-11-20-10-00-00''"
  by (simp_all add: sample_world_def)

lemma resume_resolve:
  "resolve_config sample_world resume_args =
     sample_config\<lparr>model := (model sample_config)\<lparr>resume := ''log/model.pth.tar-10''\<rparr>\<rparr>"
  by (simp add: resolve_config_def reset_config_def sample_world_def resume_args_def
      sample_args_def sample_config_def sample_set_key_def Let_def)

lemma pretrained_resolve:
  "resolve_config sample_world pretrained_args =
     sample_config\<lparr>model := (model sample_config)\<lparr>load_weights := ''pretrained.pth''\<rparr>\<rparr>"
  by (simp add: resolve_config_def reset_config_def sample_world_def pretrained_args_def
      sample_args_def sample_config_def sample_set_key_def Let_def)

lemma missing_resolve:
  "resolve_config sample_world missing_files_args =
     sample_config\<lparr>model := (model sample_config)
       \<lparr>load_weights := ''missing.pth'', resume := ''gone.pth''\<rparr>\<rparr>"
  by (simp add: resolve_config_def reset_config_def sample_world_def missing_files_args_def
      sample_args_def sample_config_def sample_set_key_def Let_def)

lemma build_engine_class:
  assumes "is_train (data cfg)"
    and "loss_name (loss cfg) \<in> {''softmax'', ''triplet'', ''center'', ''ohem''}"
    and "build_engine cfg dm m opt sch = Inr e"
  shows "engine_class e =
       (if loss_name (loss cfg) = ''softmax'' then ''ImageSoftmaxEngine''
        else if loss_name (loss cfg) = ''triplet'' then ''ImageTripletEngine''
        else if loss_name (loss cfg) = ''center'' then ''ImageCenterEngine''
        else ''ImageOHEMEngine'')"
  using assms
  by (cases cfg rule: build_engine_cases)
    (auto simp: build_engine_softmax build_engine_triplet build_engine_center build_engine_ohem)

lemma build_engine_supported:
  assumes "loss_name (loss cfg) \<in> {''softmax'', ''triplet'', ''center'', ''ohem''}"
  shows "\<exists>e. build_engine cfg dm m opt sch = Inr e"
  using assms
  by (cases cfg rule: build_engine_cases)
    (auto simp: build_engine_softmax build_engine_triplet build_engine_center
      build_engine_ohem build_engine_inference)

lemma calls_until_none:
  "\<forall>ev \<in> set evs. \<not> raises ev \<Longrightarrow> calls_until raises evs = (evs, None)"
  by (induction evs) simp_all

lemma run_main_returns:
  assumes "\<forall>ev \<in> set (st_trace (fst (main w a))). \<not> raises ev"
  shows "run_main w raises a = (st_trace (fst (main w a)), Ended (snd (main w a)))"
  by (simp add: run_main_def calls_until_none [OF assms])

lemma main_trace_startup:
  "\<exists>rest. st_trace (fst (main w a)) = st_trace (startup w a) @ rest"
  by (simp add: main_trace resumed_trace prepared_trace)

lemma main_model:
  "st_model (fst (main w a)) =
    (if names_file w (resume (model (resolve_config w a))) then
       fst (snd (resume_from_checkpoint w (resume (model (resolve_config w a)))
              (st_model (prepared w a))
              (build_optimizer w (st_model (prepared w a)) (resolve_config w a))))
     else st_model (prepared w a))"
  "st_model (prepared w a) =
    (if use_gpu (resolve_config w a)
     then data_parallel_cuda w (st_model (load_weights_step w (startup w a)))
     else st_model (load_weights_step w (startup w a)))"
  "st_model (load_weights_step w (startup w a)) =
    (if names_file w (load_weights (model (resolve_config w a)))
     then load_pretrained_weights w (st_model (startup w a))
            (load_weights (model (resolve_config w a)))
     else st_model (startup w a))"
  by (simp_all add: main_state_frame resumed_model prepared_model device_step_model
      load_weights_step_model load_weights_step_frame startup_fields)


lemma main_trace_head:
  "\<exists>rest. st_trace (fst (main w a)) =
     CudaIsAvailable # (if config_file a \<noteq> [] then [MergeFromFile (config_file a)] else [])
     @ [MergeFromList (opts a),
        SetRandomSeed (seed (train (resolve_config w a))),
        SetStdout (save_dir (data (resolve_config w a)))
          ((if evaluate (test (resolve_config w a)) then ''test.log'' else ''train.log'')
             @ strftime w),
        BuildDataManager (resolve_config w a),
        BuildModel (model_name (model (resolve_config w a)))
          (num_train_pids w (build_datamanager w (resolve_config w a)))
          (loss_name (loss (resolve_config w a))) (pretrained (model (resolve_config w a)))
          (use_gpu (resolve_config w a))]
     @ rest"
  using main_trace_startup [of w a] by (auto simp: startup_trace resolve_trace_def)


lemma engine_step_fresh:
  "engine_step w (optim_step w s) =
    (case build_engine (st_cfg s) (st_datamanager s) (st_model s)
        (build_optimizer w (st_model s) (st_cfg s))
        (build_lr_scheduler w (build_optimizer w (st_model s) (st_cfg s)) (st_cfg s)) of
       Inl e \<Rightarrow> (optim_step w s, Inl e)
     | Inr engine \<Rightarrow>
         ((optim_step w s)\<lparr>st_trace := st_trace (optim_step w s)
              @ [EngineInit engine, EngineRun engine (engine_run_kwargs (st_cfg s))]\<rparr>,
          Inr (engine, engine_run_kwargs (st_cfg s))))"
  by (simp add: engine_step_bound [OF optim_step_objects] optim_step_frame split: sum.splits)

section \<open>The claims\<close>

text \<open>
  Claim C1. With \<^verbatim>\<open>data.is_train\<close> true and \<^verbatim>\<open>loss.name\<close> one of softmax, triplet, center and
  ohem, \<^verbatim>\<open>build_engine\<close> returns an engine of the class that \<^verbatim>\<open>loss.name\<close> names
  (\<^verbatim>\<open>ImageSoftmaxEngine\<close>, \<^verbatim>\<open>ImageTripletEngine\<close>, \<^verbatim>\<open>ImageCenterEngine\<close>, \<^verbatim>\<open>ImageOHEMEngine\<close>),
  whatever the data manager, the model, the optimizer and the scheduler are: the class is
  a function of the configuration only. A run of \<^verbatim>\<open>main\<close> whose configuration, once
  resolved, is such a configuration constructs one engine, of that class, and no other.
\<close>

theorem build_engine_selects_named_variant:
  assumes "is_train (data cfg)"
    and "loss_name (loss cfg) \<in> {''softmax'', ''triplet'', ''center'', ''ohem''}"
  shows "(\<exists>e. build_engine cfg dm m opt sch = Inr e \<and>
      engine_class e =
       (if loss_name (loss cfg) = ''softmax'' then ''ImageSoftmaxEngine''
        else if loss_name (loss cfg) = ''triplet'' then ''ImageTripletEngine''
        else if loss_name (loss cfg) = ''center'' then ''ImageCenterEngine''
        else ''ImageOHEMEngine'')) \<and>
    (cfg = resolve_config w a \<longrightarrow>
      (\<exists>e kw. snd (main w a) = Inr (e, kw) \<and>
        engine_class e =
         (if loss_name (loss cfg) = ''softmax'' then ''ImageSoftmaxEngine''
          else if loss_name (loss cfg) = ''triplet'' then ''ImageTripletEngine''
          else if loss_name (loss cfg) = ''center'' then ''ImageCenterEngine''
          else ''ImageOHEMEngine'') \<and>
        filter is_EngineInit (st_trace (fst (main w a))) = [EngineInit e]))"
proof (intro conjI impI)
  from build_engine_supported [OF assms(2), of dm m opt sch]
  obtain e where e: "build_engine cfg dm m opt sch = Inr e" by blast
  with build_engine_class [OF assms e]
  show "\<exists>e. build_engine cfg dm m opt sch = Inr e \<and>
      engine_class e =
       (if loss_name (loss cfg) = ''softmax'' then ''ImageSoftmaxEngine''
        else if loss_name (loss cfg) = ''triplet'' then ''ImageTripletEngine''
        else if loss_name (loss cfg) = ''center'' then ''ImageCenterEngine''
        else ''ImageOHEMEngine'')"
    by blast
next
  assume c: "cfg = resolve_config w a"
  have t: "is_train (data (st_cfg (resumed w a)))"
    and n: "loss_name (loss (st_cfg (resumed w a)))
      \<in> {''softmax'', ''triplet'', ''center'', ''ohem''}"
    using assms c by (simp_all add: resumed_cfg_frame)
  have "\<not> is_train (data (resolve_config w a)) \<or>
    loss_name (loss (resolve_config w a)) \<in> {''softmax'', ''triplet'', ''center'', ''ohem''}"
    using assms(2) c by simp
  from main_runs_result [OF this] obtain e kw where m: "snd (main w a) = Inr (e, kw)" by blast
  have "engine_class e =
         (if loss_name (loss cfg) = ''softmax'' then ''ImageSoftmaxEngine''
          else if loss_name (loss cfg) = ''triplet'' then ''ImageTripletEngine''
          else if loss_name (loss cfg) = ''center'' then ''ImageCenterEngine''
          else ''ImageOHEMEngine'')"
    using build_engine_class [OF t n main_result_engine(1) [OF m]] c
    by (simp add: resumed_cfg_frame)
  moreover have "filter is_EngineInit (st_trace (fst (main w a))) = [EngineInit e]"
    using m by (simp add: main_trace_filter trace_before_engine)
  ultimately show "\<exists>e kw. snd (main w a) = Inr (e, kw) \<and>
        engine_class e =
         (if loss_name (loss cfg) = ''softmax'' then ''ImageSoftmaxEngine''
          else if loss_name (loss cfg) = ''triplet'' then ''ImageTripletEngine''
          else if loss_name (loss cfg) = ''center'' then ''ImageCenterEngine''
          else ''ImageOHEMEngine'') \<and>
        filter is_EngineInit (st_trace (fst (main w a))) = [EngineInit e]"
    using m by blast
qed

theorem build_engine_selects_named_variant_witness:
  "is_train (data sample_config) \<and>
   loss_name (loss sample_config) \<in> {''softmax'', ''triplet'', ''center'', ''ohem''} \<and>
   sample_config = resolve_config sample_world sample_args \<and>
   (\<exists>e. build_engine sample_config () () () () = Inr e \<and>
      engine_class e = ''ImageSoftmaxEngine'') \<and>
   (\<exists>e kw. snd (main sample_world sample_args) = Inr (e, kw) \<and>
      engine_class e = ''ImageSoftmaxEngine'' \<and>
      filter is_EngineInit (st_trace (fst (main sample_world sample_args))) = [EngineInit e])"
proof -
  have t: "is_train (data sample_config)" by (simp add: sample_config_def)
  have n: "loss_name (loss sample_config) \<in> {''softmax'', ''triplet'', ''center'', ''ohem''}"
    by (simp add: sample_config_def)
  have s: "loss_name (loss sample_config) = ''softmax''" by (simp add: sample_config_def)
  show ?thesis
    using build_engine_selects_named_variant [OF t n, of "()" "()" "()" "()"
        sample_world sample_args] t n s
    by (simp add: sample_resolve)
qed




text \<open>
  Claim C3. In a run that reaches \<^verbatim>\<open>engine.run\<close>: when \<^verbatim>\<open>cfg.model.resume\<close> names an
  existing file, the start epoch passed to \<^verbatim>\<open>engine.run\<close> is the value that
  \<^verbatim>\<open>resume_from_checkpoint\<close> returned; otherwise it is the configured \<^verbatim>\<open>train.start_epoch\<close>.
  \<^verbatim>\<open>max_epoch\<close> is the configured one in both cases. With the restore of the spec (the
  checkpoint's epoch + 1) and the epochs the spec lets the engine run, a run resumed from
  a checkpoint of epoch \<open>n\<close> runs the epochs \<open>n + 1\<close> to \<^verbatim>\<open>max_epoch\<close>: 11 to 20 for a
  checkpoint of epoch 10 and \<^verbatim>\<open>max_epoch=20\<close>, as the witness computes.
\<close>

theorem start_epoch_of_run:
  assumes "snd (main w a) = Inr (e, kw)"
  shows "(names_file w (resume (model (resolve_config w a))) \<longrightarrow>
      rk_start_epoch kw =
        fst (resume_from_checkpoint w (resume (model (resolve_config w a)))
          (st_model (prepared w a))
          (build_optimizer w (st_model (prepared w a)) (resolve_config w a)))) \<and>
    (\<not> names_file w (resume (model (resolve_config w a))) \<longrightarrow>
      rk_start_epoch kw = start_epoch (train (resolve_config w a))) \<and>
    rk_max_epoch kw = max_epoch (train (resolve_config w a)) \<and>
    (names_file w (resume (model (resolve_config w a))) \<and>
     fst (resume_from_checkpoint w (resume (model (resolve_config w a)))
          (st_model (prepared w a))
          (build_optimizer w (st_model (prepared w a)) (resolve_config w a)))
       = spec_restored_start_epoch n \<longrightarrow>
      spec_epochs_run kw = [n + 1 .. max_epoch (train (resolve_config w a))])"
proof -
  have kw: "kw = engine_run_kwargs (st_cfg (resumed w a))"
    using assms by (rule main_result_engine(2))
  show ?thesis
    by (simp add: kw engine_run_kwargs_def resumed_cfg spec_epochs_run_def
        spec_restored_start_epoch_def)
qed

theorem start_epoch_of_run_witness:
  "names_file sample_world (resume (model (resolve_config sample_world resume_args))) \<and>
   max_epoch (train (resolve_config sample_world resume_args)) = 20 \<and>
   (\<exists>e kw. snd (main sample_world resume_args) = Inr (e, kw) \<and>
      rk_start_epoch kw = spec_restored_start_epoch 10 \<and>
      spec_epochs_run kw = [11, 12, 13, 14, 15, 16, 17, 18, 19, 20]) \<and>
   \<not> names_file sample_world (resume (model (resolve_config sample_world sample_args))) \<and>
   (\<exists>e kw. snd (main sample_world sample_args) = Inr (e, kw) \<and> rk_start_epoch kw = 0)"
proof -
  have r: "resume (model (resolve_config sample_world resume_args)) = ''log/model.pth.tar-10''"
    by (simp add: resume_resolve)
  have nf: "names_file sample_world (resume (model (resolve_config sample_world resume_args)))"
    by (simp add: r names_file_def sample_world_fields)
  have mx: "max_epoch (train (resolve_config sample_world resume_args)) = 20"
    by (simp add: resume_resolve sample_config_def)
  have rs: "\<And>p m opt. fst (resume_from_checkpoint sample_world p m opt)
      = spec_restored_start_epoch 10"
    by (simp add: sample_world_fields)
  have tr: "\<not> is_train (data (resolve_config sample_world resume_args)) \<or>
    loss_name (loss (resolve_config sample_world resume_args))
      \<in> {''softmax'', ''triplet'', ''center'', ''ohem''}"
    by (simp add: resume_resolve sample_config_def)
  obtain e kw where m: "snd (main sample_world resume_args) = Inr (e, kw)"
    using main_runs_result [OF tr] by blast
  have u: "[11 .. 20] = [11, 12, 13, 14, 15, 16, 17, 18, 19, (20::int)]"
    by (simp add: upto_rec1)
  have 1: "rk_start_epoch kw = spec_restored_start_epoch 10 \<and>
      spec_epochs_run kw = [11, 12, 13, 14, 15, 16, 17, 18, 19, 20]"
    using start_epoch_of_run [OF m, of 10] nf mx rs u by simp
  have nf': "\<not> names_file sample_world (resume (model (resolve_config sample_world sample_args)))"
    by (simp add: sample_resolve names_file_def sample_config_def)
  have tr': "\<not> is_train (data (resolve_config sample_world sample_args)) \<or>
    loss_name (loss (resolve_config sample_world sample_args))
      \<in> {''softmax'', ''triplet'', ''center'', ''ohem''}"
    by (simp add: sample_resolve sample_config_def)
  obtain e' kw' where m': "snd (main sample_world sample_args) = Inr (e', kw')"
    using main_runs_result [OF tr'] by blast
  have 2: "rk_start_epoch kw' = 0"
    using start_epoch_of_run [OF m', of 0] nf' by (simp add: sample_resolve sample_config_def)
  show ?thesis using nf mx m 1 nf' m' 2 by blast
qed

text \<open>
  Claim C4. The step that loads pretrained weights changes the model only: the
  configuration (and so \<^verbatim>\<open>train.start_epoch\<close>), the optimizer and the scheduler are the same
  before and after it, for any state; in \<^verbatim>\<open>main\<close> the call gets the model just built and
  the path, and the optimizer and the scheduler are not yet bound when it runs. At the
  end of \<^verbatim>\<open>main\<close> the configuration differs from the resolved one only when
  \<^verbatim>\<open>cfg.model.resume\<close> names a file, and then in \<^verbatim>\<open>train.start_epoch\<close> only, which holds the
  value \<^verbatim>\<open>resume_from_checkpoint\<close> returned; the optimizer is the restored one in that case
  and the one \<^verbatim>\<open>build_optimizer\<close> made otherwise; the scheduler is the one
  \<^verbatim>\<open>build_lr_scheduler\<close> made in both.
\<close>

theorem pretrained_weights_change_only_model:
  "st_cfg (load_weights_step w s) = st_cfg s \<and>
   st_optimizer (load_weights_step w s) = st_optimizer s \<and>
   st_scheduler (load_weights_step w s) = st_scheduler s \<and>
   filter is_LoadPretrainedWeights (st_trace (fst (main w a))) =
     (if names_file w (load_weights (model (resolve_config w a)))
      then [LoadPretrainedWeights (st_model (startup w a))
              (load_weights (model (resolve_config w a)))] else []) \<and>
   st_optimizer (load_weights_step w (startup w a)) = None \<and>
   st_scheduler (load_weights_step w (startup w a)) = None \<and>
   st_cfg (fst (main w a)) =
     (if names_file w (resume (model (resolve_config w a))) then
        (resolve_config w a)\<lparr>train := (train (resolve_config w a))
          \<lparr>start_epoch := fst (resume_from_checkpoint w (resume (model (resolve_config w a)))
              (st_model (prepared w a))
              (build_optimizer w (st_model (prepared w a)) (resolve_config w a)))\<rparr>\<rparr>
      else resolve_config w a) \<and>
   st_optimizer (fst (main w a)) = Some
     (if names_file w (resume (model (resolve_config w a))) then
        snd (snd (resume_from_checkpoint w (resume (model (resolve_config w a)))
              (st_model (prepared w a))
              (build_optimizer w (st_model (prepared w a)) (resolve_config w a))))
      else build_optimizer w (st_model (prepared w a)) (resolve_config w a)) \<and>
   st_scheduler (fst (main w a)) = Some
     (build_lr_scheduler w
        (build_optimizer w (st_model (prepared w a)) (resolve_config w a)) (resolve_config w a))"
  by (simp add: load_weights_step_frame startup_fields main_trace_filter trace_load
      main_state_frame resumed_cfg resumed_optimizer resumed_frame prepared_objects
      split: sum.splits)

theorem pretrained_weights_change_only_model_witness:
  "filter is_LoadPretrainedWeights (st_trace (fst (main sample_world pretrained_args))) =
     [LoadPretrainedWeights (Net ''resnet50'' 751 ''softmax'' True True) ''pretrained.pth''] \<and>
   start_epoch (train (st_cfg (fst (main sample_world pretrained_args)))) = 0 \<and>
   st_optimizer (fst (main sample_world pretrained_args)) =
     Some (Optimizer (DataParallelCuda_of
       (Pretrained (Net ''resnet50'' 751 ''softmax'' True True) ''pretrained.pth'')))"
proof -
  have nf: "names_file sample_world ''pretrained.pth''" "\<not> names_file sample_world []"
    by (simp_all add: names_file_def sample_world_fields)
  have m: "st_model (startup sample_world pretrained_args)
      = Net ''resnet50'' 751 ''softmax'' True True"
    "st_model (prepared sample_world pretrained_args) = DataParallelCuda_of
       (Pretrained (Net ''resnet50'' 751 ''softmax'' True True) ''pretrained.pth'')"
    by (simp_all add: run_defs pretrained_args_def)
  have b: "\<And>m c. build_optimizer sample_world m c = Optimizer m"
    by (simp add: sample_world_fields)
  have l: "load_weights (model (resolve_config sample_world pretrained_args)) = ''pretrained.pth''"
    "resume (model (resolve_config sample_world pretrained_args)) = []"
    "start_epoch (train (resolve_config sample_world pretrained_args)) = 0"
    by (simp_all add: pretrained_resolve sample_config_def)
  show ?thesis
    using pretrained_weights_change_only_model [of sample_world
        "startup sample_world pretrained_args" pretrained_args]
    by (simp add: nf m b l)
qed

text \<open>
  Claim C5. When \<^verbatim>\<open>cfg.model.load_weights\<close> is unset or names no file, lines 146 and 147
  call nothing but \<^verbatim>\<open>check_isfile\<close> and leave the state as it is; lines 155 and 156 do the
  same when \<^verbatim>\<open>cfg.model.resume\<close> is unset or names no file. With both skipped the run is
  that of a fresh start: \<^verbatim>\<open>main\<close> ends as its other steps alone end (the model built and
  put on its device, the optimizer and the scheduler built, the engine built and run),
  with the same calls, \<^verbatim>\<open>check_isfile\<close> apart, and the configuration, the model and the
  optimizer of those steps. A loader that is not called cannot stop the run, whatever it
  would do with the path: if no other call raises and \<^verbatim>\<open>build_engine\<close> has an engine to
  return (\<^verbatim>\<open>data.is_train\<close> false, or a supported \<^verbatim>\<open>loss.name\<close>, as in any fresh start), the
  model, the optimizer, the scheduler and the engine are built once each and
  \<^verbatim>\<open>engine.run\<close> is called.
\<close>

theorem skipped_loading_is_fresh_start:
  "(\<not> names_file w (load_weights (model (resolve_config w a))) \<longrightarrow>
      load_weights_step w (startup w a) =
        (startup w a)\<lparr>st_trace := st_trace (startup w a) @
          (if load_weights (model (resolve_config w a)) = [] then []
           else [CheckIsfile (load_weights (model (resolve_config w a)))])\<rparr> \<and>
      filter is_LoadPretrainedWeights (st_trace (fst (main w a))) = []) \<and>
   (\<not> names_file w (resume (model (resolve_config w a))) \<longrightarrow>
      resume_step w (prepared w a) =
        Inr ((prepared w a)\<lparr>st_trace := st_trace (prepared w a) @
          (if resume (model (resolve_config w a)) = [] then []
           else [CheckIsfile (resume (model (resolve_config w a)))])\<rparr>) \<and>
      filter is_ResumeFromCheckpoint (st_trace (fst (main w a))) = []) \<and>
   (\<not> names_file w (load_weights (model (resolve_config w a))) \<and>
    \<not> names_file w (resume (model (resolve_config w a))) \<longrightarrow>
      snd (main w a) = snd (engine_step w (optim_step w (device_step w (startup w a)))) \<and>
      filter (\<lambda>ev. \<not> is_CheckIsfile ev) (st_trace (fst (main w a))) =
        st_trace (fst (engine_step w (optim_step w (device_step w (startup w a))))) \<and>
      st_cfg (fst (main w a)) = resolve_config w a \<and>
      st_model (fst (main w a)) = st_model (device_step w (startup w a)) \<and>
      st_optimizer (fst (main w a)) =
        Some (build_optimizer w (st_model (device_step w (startup w a))) (resolve_config w a))) \<and>
   ((\<forall>ev \<in> set (st_trace (fst (main w a))). raises ev \<longrightarrow>
        is_LoadPretrainedWeights ev \<and> \<not> names_file w (load_weights (model (resolve_config w a))) \<or>
        is_ResumeFromCheckpoint ev \<and> \<not> names_file w (resume (model (resolve_config w a)))) \<and>
    (\<not> is_train (data (resolve_config w a)) \<or>
     loss_name (loss (resolve_config w a)) \<in> {''softmax'', ''triplet'', ''center'', ''ohem''})
    \<longrightarrow>
      (\<exists>e kw. run_main w raises a = (st_trace (fst (main w a)), Ended (Inr (e, kw))) \<and>
         length (filter is_BuildModel (fst (run_main w raises a))) = 1 \<and>
         length (filter is_BuildOptimizer (fst (run_main w raises a))) = 1 \<and>
         length (filter is_BuildLrScheduler (fst (run_main w raises a))) = 1 \<and>
         filter is_EngineInit (fst (run_main w raises a)) = [EngineInit e] \<and>
         filter is_EngineRun (fst (run_main w raises a)) = [EngineRun e kw]))"
proof (intro conjI impI)
  assume n: "\<not> names_file w (load_weights (model (resolve_config w a)))"
  then show "load_weights_step w (startup w a) =
        (startup w a)\<lparr>st_trace := st_trace (startup w a) @
          (if load_weights (model (resolve_config w a)) = [] then []
           else [CheckIsfile (load_weights (model (resolve_config w a)))])\<rparr>"
    by (auto simp add: load_weights_step_def names_file_def startup_fields Let_def)
  from n show "filter is_LoadPretrainedWeights (st_trace (fst (main w a))) = []"
    by (simp add: main_trace_filter trace_load split: sum.splits)
next
  assume n: "\<not> names_file w (resume (model (resolve_config w a)))"
  then show "resume_step w (prepared w a) =
        Inr ((prepared w a)\<lparr>st_trace := st_trace (prepared w a) @
          (if resume (model (resolve_config w a)) = [] then []
           else [CheckIsfile (resume (model (resolve_config w a)))])\<rparr>)"
    by (auto simp add: resume_step_bound [OF prepared_objects(1)] prepared_frame names_file_def)
  from n show "filter is_ResumeFromCheckpoint (st_trace (fst (main w a))) = []"
    by (simp add: main_trace_filter trace_resume split: sum.splits)
next
  assume n: "\<not> names_file w (load_weights (model (resolve_config w a))) \<and>
    \<not> names_file w (resume (model (resolve_config w a)))"
  have L: "st_model (load_weights_step w (startup w a)) = st_model (startup w a)"
    using n by (simp add: main_model(3))
  have P: "st_model (prepared w a) = st_model (device_step w (startup w a))"
    by (simp add: main_model(2) L device_step_model startup_fields(1))
  have md: "st_model (resumed w a) = st_model (device_step w (startup w a))"
    using n by (simp add: resumed_model P)
  have fr: "st_cfg (resumed w a) = resolve_config w a"
    "st_datamanager (resumed w a) = st_datamanager (device_step w (startup w a))"
    "the (st_optimizer (resumed w a)) =
       build_optimizer w (st_model (device_step w (startup w a))) (resolve_config w a)"
    "the (st_scheduler (resumed w a)) =
       build_lr_scheduler w
         (build_optimizer w (st_model (device_step w (startup w a))) (resolve_config w a))
         (resolve_config w a)"
    using n
    by (simp_all add: resumed_cfg resumed_frame resumed_optimizer prepared_objects P
        device_step_frame startup_fields(4))
  show r: "snd (main w a) = snd (engine_step w (optim_step w (device_step w (startup w a))))"
    by (simp add: main_result md fr engine_step_fresh device_step_frame startup_fields
        split: sum.splits)
  have t0: "filter (\<lambda>ev. \<not> is_CheckIsfile ev) (st_trace (startup w a)) = st_trace (startup w a)"
    by (simp add: startup_trace resolve_trace_def)
  have t1: "st_trace (optim_step w (device_step w (startup w a))) =
      st_trace (startup w a)
      @ (if use_gpu (resolve_config w a) then [DataParallelCuda (st_model (startup w a))] else [])
      @ [BuildOptimizer (st_model (device_step w (startup w a))) (resolve_config w a),
         BuildLrScheduler
           (build_optimizer w (st_model (device_step w (startup w a))) (resolve_config w a))
           (resolve_config w a)]"
    by (simp add: optim_step_trace device_step_trace device_step_frame startup_fields(1))
  have tr: "filter (\<lambda>ev. \<not> is_CheckIsfile ev) (st_trace (resumed w a)) =
      st_trace (optim_step w (device_step w (startup w a)))"
    using n by (auto simp add: resumed_trace prepared_trace t0 t1 L P names_file_def)
  show "filter (\<lambda>ev. \<not> is_CheckIsfile ev) (st_trace (fst (main w a))) =
        st_trace (fst (engine_step w (optim_step w (device_step w (startup w a)))))"
    using r
    by (simp add: main_trace_filter tr engine_step_fresh fr device_step_frame startup_fields
        split: sum.splits)
  show "st_cfg (fst (main w a)) = resolve_config w a"
    by (simp add: main_state_frame fr)
  show "st_model (fst (main w a)) = st_model (device_step w (startup w a))"
    by (simp add: main_state_frame md)
  show "st_optimizer (fst (main w a)) =
        Some (build_optimizer w (st_model (device_step w (startup w a))) (resolve_config w a))"
    using fr(3) by (simp add: main_state_frame resumed_optimizer)
next
  assume h: "(\<forall>ev \<in> set (st_trace (fst (main w a))). raises ev \<longrightarrow>
        is_LoadPretrainedWeights ev \<and> \<not> names_file w (load_weights (model (resolve_config w a))) \<or>
        is_ResumeFromCheckpoint ev \<and> \<not> names_file w (resume (model (resolve_config w a)))) \<and>
    (\<not> is_train (data (resolve_config w a)) \<or>
     loss_name (loss (resolve_config w a)) \<in> {''softmax'', ''triplet'', ''center'', ''ohem''})"
  have l: "\<not> names_file w (load_weights (model (resolve_config w a))) \<Longrightarrow>
      \<forall>ev \<in> set (st_trace (fst (main w a))). \<not> is_LoadPretrainedWeights ev"
    using filter_empty_conv [of is_LoadPretrainedWeights "st_trace (fst (main w a))"]
    by (simp add: main_trace_filter trace_load split: sum.splits)
  have s: "\<not> names_file w (resume (model (resolve_config w a))) \<Longrightarrow>
      \<forall>ev \<in> set (st_trace (fst (main w a))). \<not> is_ResumeFromCheckpoint ev"
    using filter_empty_conv [of is_ResumeFromCheckpoint "st_trace (fst (main w a))"]
    by (simp add: main_trace_filter trace_resume split: sum.splits)
  from h l s have "\<forall>ev \<in> set (st_trace (fst (main w a))). \<not> raises ev" by blast
  then have r: "run_main w raises a = (st_trace (fst (main w a)), Ended (snd (main w a)))"
    by (rule run_main_returns)
  from h main_runs_result [of w a] obtain e kw where m: "snd (main w a) = Inr (e, kw)"
    by blast
  have "length (filter is_BuildModel (st_trace (fst (main w a)))) = 1 \<and>
     length (filter is_BuildOptimizer (st_trace (fst (main w a)))) = 1 \<and>
     length (filter is_BuildLrScheduler (st_trace (fst (main w a)))) = 1 \<and>
     filter is_EngineInit (st_trace (fst (main w a))) = [EngineInit e] \<and>
     filter is_EngineRun (st_trace (fst (main w a))) = [EngineRun e kw]"
    using m
    by (simp add: main_trace_filter trace_build_model trace_optim trace_before_engine)
  with r m
  show "\<exists>e kw. run_main w raises a = (st_trace (fst (main w a)), Ended (Inr (e, kw))) \<and>
         length (filter is_BuildModel (fst (run_main w raises a))) = 1 \<and>
         length (filter is_BuildOptimizer (fst (run_main w raises a))) = 1 \<and>
         length (filter is_BuildLrScheduler (fst (run_main w raises a))) = 1 \<and>
         filter is_EngineInit (fst (run_main w raises a)) = [EngineInit e] \<and>
         filter is_EngineRun (fst (run_main w raises a)) = [EngineRun e kw]"
    by auto
qed

theorem skipped_loading_is_fresh_start_witness:
  "\<not> names_file sample_world (load_weights (model (resolve_config sample_world missing_files_args))) \<and>
   \<not> names_file sample_world (resume (model (resolve_config sample_world missing_files_args))) \<and>
   sample_raises True (LoadPretrainedWeights (Net ''resnet50'' 751 ''softmax'' True True)
     (load_weights (model (resolve_config sample_world missing_files_args)))) \<and>
   loss_name (loss (resolve_config sample_world missing_files_args)) = ''softmax'' \<and>
   filter is_LoadPretrainedWeights (st_trace (fst (main sample_world missing_files_args))) = [] \<and>
   filter is_ResumeFromCheckpoint (st_trace (fst (main sample_world missing_files_args))) = [] \<and>
   st_model (fst (main sample_world missing_files_args)) =
     DataParallelCuda_of (Net ''resnet50'' 751 ''softmax'' True True) \<and>
   start_epoch (train (st_cfg (fst (main sample_world missing_files_args)))) = 0 \<and>
   (\<exists>e kw. run_main sample_world (sample_raises True) missing_files_args =
        (st_trace (fst (main sample_world missing_files_args)), Ended (Inr (e, kw))) \<and>
      length (filter is_BuildOptimizer
        (fst (run_main sample_world (sample_raises True) missing_files_args))) = 1 \<and>
      filter is_EngineRun (fst (run_main sample_world (sample_raises True) missing_files_args))
        = [EngineRun e kw])"
proof -
  have nf: "\<not> names_file sample_world
      (load_weights (model (resolve_config sample_world missing_files_args)))"
    "\<not> names_file sample_world (resume (model (resolve_config sample_world missing_files_args)))"
    by (simp_all add: missing_resolve names_file_def sample_world_fields)
  have l: "loss_name (loss (resolve_config sample_world missing_files_args)) = ''softmax''"
    "start_epoch (train (resolve_config sample_world missing_files_args)) = 0"
    "load_weights (model (resolve_config sample_world missing_files_args)) = ''missing.pth''"
    by (simp_all add: missing_resolve sample_config_def)
  have d: "st_model (device_step sample_world (startup sample_world missing_files_args)) =
      DataParallelCuda_of (Net ''resnet50'' 751 ''softmax'' True True)"
    by (simp add: run_defs missing_files_args_def)
  have "list_all (\<lambda>ev. \<not> sample_raises True ev)
      (st_trace (fst (main sample_world missing_files_args)))"
    by (simp add: run_defs missing_files_args_def)
  then have r: "\<forall>ev \<in> set (st_trace (fst (main sample_world missing_files_args))).
      sample_raises True ev \<longrightarrow>
        is_LoadPretrainedWeights ev \<and> \<not> names_file sample_world
          (load_weights (model (resolve_config sample_world missing_files_args))) \<or>
        is_ResumeFromCheckpoint ev \<and> \<not> names_file sample_world
          (resume (model (resolve_config sample_world missing_files_args)))"
    by (simp add: list_all_iff)
  have x: "sample_raises True (LoadPretrainedWeights (Net ''resnet50'' 751 ''softmax'' True True)
     (load_weights (model (resolve_config sample_world missing_files_args))))"
    by (simp add: l)
  have s: "start_epoch (train (st_cfg (fst (main sample_world missing_files_args)))) = 0"
    using skipped_loading_is_fresh_start [of sample_world missing_files_args "sample_raises True"]
      nf by (simp add: l)
  obtain e kw where
    "run_main sample_world (sample_raises True) missing_files_args =
        (st_trace (fst (main sample_world missing_files_args)), Ended (Inr (e, kw)))"
    "length (filter is_BuildOptimizer
        (fst (run_main sample_world (sample_raises True) missing_files_args))) = 1"
    "filter is_EngineRun (fst (run_main sample_world (sample_raises True) missing_files_args))
        = [EngineRun e kw]"
    using skipped_loading_is_fresh_start [of sample_world missing_files_args "sample_raises True"]
      r l(1) by auto
  moreover have "filter is_LoadPretrainedWeights
      (st_trace (fst (main sample_world missing_files_args))) = []"
    "filter is_ResumeFromCheckpoint (st_trace (fst (main sample_world missing_files_args))) = []"
    "st_model (fst (main sample_world missing_files_args)) =
      DataParallelCuda_of (Net ''resnet50'' 751 ''softmax'' True True)"
    using skipped_loading_is_fresh_start [of sample_world missing_files_args "sample_raises True"]
      nf d by simp_all
  ultimately show ?thesis using nf x l(1) s by blast
qed

text \<open>
  Claim C6. With \<^verbatim>\<open>data.is_train\<close> true and \<^verbatim>\<open>loss.name\<close> none of softmax, triplet, center and
  ohem, \<^verbatim>\<open>build_engine\<close> raises \<^verbatim>\<open>UnboundLocalError\<close> at \<^verbatim>\<open>return engine\<close>; with \<^verbatim>\<open>loss.name\<close>
  one of the four, it returns an engine. A run of \<^verbatim>\<open>main\<close> whose resolved configuration is
  of the first kind ends with that exception, having called no engine constructor and no
  \<^verbatim>\<open>engine.run\<close>.
\<close>

theorem unsupported_loss_aborts:
  "(is_train (data cfg) \<and>
      loss_name (loss cfg) \<notin> {''softmax'', ''triplet'', ''center'', ''ohem''} \<longrightarrow>
      build_engine cfg dm m opt sch = Inl UnboundLocalError) \<and>
   (loss_name (loss cfg) \<in> {''softmax'', ''triplet'', ''center'', ''ohem''} \<longrightarrow>
      (\<exists>e. build_engine cfg dm m opt sch = Inr e)) \<and>
   (is_train (data (resolve_config w a)) \<and>
      loss_name (loss (resolve_config w a)) \<notin> {''softmax'', ''triplet'', ''center'', ''ohem''} \<longrightarrow>
      snd (main w a) = Inl UnboundLocalError \<and>
      filter is_EngineInit (st_trace (fst (main w a))) = [] \<and>
      filter is_EngineRun (st_trace (fst (main w a))) = [])"
proof (intro conjI impI)
  assume "is_train (data cfg) \<and>
    loss_name (loss cfg) \<notin> {''softmax'', ''triplet'', ''center'', ''ohem''}"
  then show "build_engine cfg dm m opt sch = Inl UnboundLocalError"
    by (simp add: build_engine_unsupported)
next
  assume "loss_name (loss cfg) \<in> {''softmax'', ''triplet'', ''center'', ''ohem''}"
  then show "\<exists>e. build_engine cfg dm m opt sch = Inr e"
    by (cases cfg rule: build_engine_cases)
      (auto simp: build_engine_softmax build_engine_triplet build_engine_center
        build_engine_ohem build_engine_inference)
next
  assume h: "is_train (data (resolve_config w a)) \<and>
    loss_name (loss (resolve_config w a)) \<notin> {''softmax'', ''triplet'', ''center'', ''ohem''}"
  then have m: "main w a = (resumed w a, Inl UnboundLocalError)"
    by (simp add: main_fails)
  show "snd (main w a) = Inl UnboundLocalError" by (simp add: m)
  show "filter is_EngineInit (st_trace (fst (main w a))) = []"
    by (simp add: m trace_before_engine)
  show "filter is_EngineRun (st_trace (fst (main w a))) = []"
    by (simp add: m trace_before_engine)
qed

theorem unsupported_loss_aborts_witness:
  "build_engine (resolve_config sample_world unsupported_args) () () () () = Inl UnboundLocalError \<and>
   (\<exists>e. build_engine sample_config () () () () = Inr e) \<and>
   snd (main sample_world unsupported_args) = Inl UnboundLocalError \<and>
   filter is_EngineRun (st_trace (fst (main sample_world unsupported_args))) = []"
proof -
  have n: "loss_name (loss sample_config) \<in> {''softmax'', ''triplet'', ''center'', ''ohem''}"
    by (simp add: sample_config_def)
  show ?thesis
    using unsupported_loss_aborts [of "resolve_config sample_world unsupported_args"
        "()" "()" "()" "()" sample_world unsupported_args]
      unsupported_loss_aborts [of sample_config "()" "()" "()" "()" sample_world unsupported_args]
      n
    by (auto simp add: unsupported_run)
qed

text \<open>
  Claim C7. In every run \<^verbatim>\<open>build_model\<close> is called once, with \<^verbatim>\<open>num_classes\<close> equal to
  \<^verbatim>\<open>num_train_pids\<close> of the data manager of the run (the one \<^verbatim>\<open>build_datamanager\<close> made
  from the resolved configuration), and the model of line 136 is what that call returns.
  The count of logits is the model's own affair: for any count \<open>num_logits\<close> that
  \<^verbatim>\<open>build_model\<close> sets to \<^verbatim>\<open>num_classes\<close> and that loading weights, wrapping for the GPU
  and resuming leave as it is, the model at the end of \<^verbatim>\<open>main\<close>, which is the model of the
  engine, has as many logits as the data manager of the engine has training identities.
\<close>

theorem model_num_classes_is_num_train_pids:
  "filter is_BuildModel (st_trace (fst (main w a))) =
     [BuildModel (model_name (model (resolve_config w a)))
        (num_train_pids w (st_datamanager (fst (main w a))))
        (loss_name (loss (resolve_config w a))) (pretrained (model (resolve_config w a)))
        (use_gpu (resolve_config w a))] \<and>
   st_datamanager (fst (main w a)) = build_datamanager w (resolve_config w a) \<and>
   filter is_BuildDataManager (st_trace (fst (main w a))) =
     [BuildDataManager (resolve_config w a)] \<and>
   st_model (startup w a) =
     build_model w (model_name (model (resolve_config w a)))
       (num_train_pids w (build_datamanager w (resolve_config w a)))
       (loss_name (loss (resolve_config w a))) (pretrained (model (resolve_config w a)))
       (use_gpu (resolve_config w a)) \<and>
   ((\<forall>name n loss_n pre gpu. num_logits (build_model w name n loss_n pre gpu) = n) \<and>
    (\<forall>m path. num_logits (load_pretrained_weights w m path) = num_logits m) \<and>
    (\<forall>m. num_logits (data_parallel_cuda w m) = num_logits m) \<and>
    (\<forall>path m opt. num_logits (fst (snd (resume_from_checkpoint w path m opt))) = num_logits m)
    \<longrightarrow>
      num_logits (st_model (fst (main w a))) =
        num_train_pids w (st_datamanager (fst (main w a))) \<and>
      (\<forall>e kw. snd (main w a) = Inr (e, kw) \<longrightarrow>
         num_logits (eng_model e) = num_train_pids w (eng_datamanager e)))"
proof (intro conjI impI allI)
  show "filter is_BuildModel (st_trace (fst (main w a))) =
     [BuildModel (model_name (model (resolve_config w a)))
        (num_train_pids w (st_datamanager (fst (main w a))))
        (loss_name (loss (resolve_config w a))) (pretrained (model (resolve_config w a)))
        (use_gpu (resolve_config w a))]"
    by (simp add: main_trace_filter trace_build_model main_state_frame resumed_frame
        split: sum.splits)
  show "st_datamanager (fst (main w a)) = build_datamanager w (resolve_config w a)"
    by (simp add: main_state_frame resumed_frame)
  show "filter is_BuildDataManager (st_trace (fst (main w a))) =
     [BuildDataManager (resolve_config w a)]"
    by (simp add: main_trace_filter trace_build_datamanager split: sum.splits)
  show "st_model (startup w a) =
     build_model w (model_name (model (resolve_config w a)))
       (num_train_pids w (build_datamanager w (resolve_config w a)))
       (loss_name (loss (resolve_config w a))) (pretrained (model (resolve_config w a)))
       (use_gpu (resolve_config w a))"
    by (simp add: startup_fields)
next
  assume c: "(\<forall>name n loss_n pre gpu. num_logits (build_model w name n loss_n pre gpu) = n) \<and>
    (\<forall>m path. num_logits (load_pretrained_weights w m path) = num_logits m) \<and>
    (\<forall>m. num_logits (data_parallel_cuda w m) = num_logits m) \<and>
    (\<forall>path m opt. num_logits (fst (snd (resume_from_checkpoint w path m opt))) = num_logits m)"
  have 0: "num_logits (st_model (startup w a)) =
      num_train_pids w (build_datamanager w (resolve_config w a))"
    using c by (simp add: startup_fields)
  have 1: "num_logits (st_model (load_weights_step w (startup w a))) =
      num_logits (st_model (startup w a))"
    using c by (simp add: main_model(3))
  have 2: "num_logits (st_model (prepared w a)) =
      num_logits (st_model (load_weights_step w (startup w a)))"
    using c by (simp add: main_model(2))
  have 3: "num_logits (st_model (fst (main w a))) = num_logits (st_model (prepared w a))"
    using c by (simp add: main_model(1))
  show l: "num_logits (st_model (fst (main w a))) =
        num_train_pids w (st_datamanager (fst (main w a)))"
    using 0 1 2 3 by (simp add: main_state_frame resumed_frame)
  fix e kw
  assume "snd (main w a) = Inr (e, kw)"
  from build_engine_objects [OF main_result_engine(1) [OF this]]
  have "eng_datamanager e = st_datamanager (fst (main w a))"
    and "eng_model e = st_model (fst (main w a))"
    by (simp_all add: main_state_frame)
  with l show "num_logits (eng_model e) = num_train_pids w (eng_datamanager e)" by simp
qed

theorem model_num_classes_is_num_train_pids_witness:
  "(\<forall>name n loss_n pre gpu. sample_num_logits (build_model sample_world name n loss_n pre gpu) = n) \<and>
   (\<forall>m path. sample_num_logits (load_pretrained_weights sample_world m path)
      = sample_num_logits m) \<and>
   (\<forall>m. sample_num_logits (data_parallel_cuda sample_world m) = sample_num_logits m) \<and>
   (\<forall>path m opt. sample_num_logits (fst (snd (resume_from_checkpoint sample_world path m opt)))
      = sample_num_logits m) \<and>
   num_train_pids sample_world (st_datamanager (fst (main sample_world resume_args))) = 751 \<and>
   filter is_BuildModel (st_trace (fst (main sample_world resume_args))) =
     [BuildModel ''resnet50'' 751 ''softmax'' True True] \<and>
   st_model (startup sample_world resume_args) = Net ''resnet50'' 751 ''softmax'' True True \<and>
   (\<exists>e kw. snd (main sample_world resume_args) = Inr (e, kw) \<and>
      eng_model e = ResumedModel (DataParallelCuda_of (Net ''resnet50'' 751 ''softmax'' True True))
        ''log/model.pth.tar-10'' \<and>
      sample_num_logits (eng_model e) = 751)"
proof -
  have c: "(\<forall>name n loss_n pre gpu.
      sample_num_logits (build_model sample_world name n loss_n pre gpu) = n) \<and>
   (\<forall>m path. sample_num_logits (load_pretrained_weights sample_world m path)
      = sample_num_logits m) \<and>
   (\<forall>m. sample_num_logits (data_parallel_cuda sample_world m) = sample_num_logits m) \<and>
   (\<forall>path m opt. sample_num_logits (fst (snd (resume_from_checkpoint sample_world path m opt)))
      = sample_num_logits m)"
    by (simp add: sample_world_def)
  have p: "num_train_pids sample_world = (\<lambda>dm. 751)" "build_model sample_world = Net"
    by (simp_all add: sample_world_def)
  have f: "model_name (model (resolve_config sample_world resume_args)) = ''resnet50''"
    "loss_name (loss (resolve_config sample_world resume_args)) = ''softmax''"
    "pretrained (model (resolve_config sample_world resume_args))"
    "use_gpu (resolve_config sample_world resume_args)"
    by (simp_all add: resume_resolve sample_config_def)
  have tr: "\<not> is_train (data (resolve_config sample_world resume_args)) \<or>
    loss_name (loss (resolve_config sample_world resume_args))
      \<in> {''softmax'', ''triplet'', ''center'', ''ohem''}"
    by (simp add: f)
  obtain e kw where m: "snd (main sample_world resume_args) = Inr (e, kw)"
    using main_runs_result [OF tr] by blast
  have em: "eng_model e =
      ResumedModel (DataParallelCuda_of (Net ''resnet50'' 751 ''softmax'' True True))
        ''log/model.pth.tar-10''"
    using m by (simp add: run_defs resume_args_def) auto
  note t = model_num_classes_is_num_train_pids [of sample_world resume_args sample_num_logits]
  from t c m have "sample_num_logits (eng_model e) = 751"
    by (simp add: p)
  with t c m em show ?thesis by (simp add: p f)
qed

text \<open>
  Claim C8, as the code has it. The \<^verbatim>\<open>weight_*\<close> parameters of the Triplet, Center and OHEM
  engines come from \<^verbatim>\<open>loss.triplet\<close>, \<^verbatim>\<open>loss.center\<close> and \<^verbatim>\<open>loss.ohem\<close> respectively, as do
  \<^verbatim>\<open>ranked_loss\<close> and \<^verbatim>\<open>ms_loss\<close> of Triplet and \<^verbatim>\<open>feature_dim\<close> and \<^verbatim>\<open>num_features\<close> of Center.
  The margin and the metric of all three come from \<^verbatim>\<open>loss.triplet\<close>, and the label
  smoothing flag of all four training engines comes from \<^verbatim>\<open>loss.softmax\<close>.
\<close>

theorem engine_parameter_sources:
  assumes "is_train (data cfg)" and "build_engine cfg dm m opt sch = Inr e"
  shows "eng_label_smooth e = label_smooth (softmax (loss cfg)) \<and>
    (loss_name (loss cfg) \<noteq> ''softmax'' \<longrightarrow>
       eng_margin e = triplet_margin (triplet (loss cfg)) \<and>
       eng_metric e = triplet_metric (triplet (loss cfg))) \<and>
    (loss_name (loss cfg) = ''triplet'' \<longrightarrow>
       eng_weight_t e = triplet_weight_t (triplet (loss cfg)) \<and>
       eng_weight_x e = triplet_weight_x (triplet (loss cfg)) \<and>
       eng_ranked_loss e = ranked_loss (triplet (loss cfg)) \<and>
       eng_ms_loss e = ms_loss (triplet (loss cfg))) \<and>
    (loss_name (loss cfg) = ''center'' \<longrightarrow>
       eng_weight_t e = center_weight_t (center (loss cfg)) \<and>
       eng_weight_x e = center_weight_x (center (loss cfg)) \<and>
       eng_weight_c e = weight_c (center (loss cfg)) \<and>
       eng_feature_dim e = feature_dim (center (loss cfg)) \<and>
       eng_num_features e = num_features (center (loss cfg))) \<and>
    (loss_name (loss cfg) = ''ohem'' \<longrightarrow>
       eng_weight_t e = ohem_weight_t (ohem (loss cfg)) \<and>
       eng_weight_x e = ohem_weight_x (ohem (loss cfg)) \<and>
       eng_weight_f e = weight_f (ohem (loss cfg)))"
  using assms
  by (cases cfg rule: build_engine_cases)
    (auto simp: build_engine_softmax build_engine_triplet build_engine_center build_engine_ohem
      build_engine_unsupported)

theorem engine_parameter_sources_witness:
  "is_train (data center_config) \<and>
   build_engine center_config () () () () = Inr sample_center_engine \<and>
   eng_margin sample_center_engine = triplet_margin (triplet (loss center_config)) \<and>
   eng_label_smooth sample_center_engine = label_smooth (softmax (loss center_config)) \<and>
   eng_weight_c sample_center_engine = weight_c (center (loss center_config))"
proof -
  have t: "is_train (data center_config)" by (simp add: center_config_def sample_config_def)
  have b: "build_engine center_config () () () () = Inr sample_center_engine"
    by (simp add: build_engine_def center_config_def sample_config_def sample_center_engine_def)
  have n: "loss_name (loss center_config) = ''center''"
    by (simp add: center_config_def)
  show ?thesis using engine_parameter_sources [OF t b] t b n by simp
qed

text \<open>
  The claim as the spec words it has the margin of the Center engine come from
  \<^verbatim>\<open>loss.center\<close>. Two configurations with \<^verbatim>\<open>loss.name\<close> center and the same \<^verbatim>\<open>loss.center\<close>,
  apart in \<^verbatim>\<open>loss.triplet.margin\<close> only, get Center engines of different margins.
\<close>

theorem own_subsection_counterexample:
  "loss_name (loss center_config) = ''center'' \<and>
   loss_name (loss center_config_wide_margin) = ''center'' \<and>
   center (loss center_config_wide_margin) = center (loss center_config) \<and>
   build_engine center_config () () () () =
     Inr (ImageCenterEngine () () () 0.3 1 1 0.0005 () True ''euclidean'' 2048 True 1) \<and>
   build_engine center_config_wide_margin () () () () =
     Inr (ImageCenterEngine () () () 0.5 1 1 0.0005 () True ''euclidean'' 2048 True 1)"
  by (simp add: build_engine_def center_config_wide_margin_def center_config_def
      sample_config_def)

text \<open>
  Claim C9. With \<^verbatim>\<open>data.is_train\<close> false, \<^verbatim>\<open>build_engine\<close> returns the \<^verbatim>\<open>InfenerceEngine\<close> made
  of the data manager, the model and \<^verbatim>\<open>cfg.use_gpu\<close>, whatever the whole \<^verbatim>\<open>loss\<close> node of the
  configuration holds, \<^verbatim>\<open>loss.name\<close> included.
\<close>

theorem inference_engine_ignores_loss:
  assumes "\<not> is_train (data cfg)"
  shows "build_engine (cfg\<lparr>loss := l\<rparr>) dm m opt sch =
    Inr (InfenerceEngine dm m (use_gpu cfg))"
  using assms by (simp add: build_engine_inference)

theorem inference_engine_ignores_loss_witness:
  "\<not> is_train (data test_config) \<and>
   build_engine (test_config\<lparr>loss := (loss test_config)\<lparr>loss_name := ''arcface''\<rparr>\<rparr>)
     () () () () = Inr (InfenerceEngine () () True) \<and>
   build_engine test_config () () () () = Inr (InfenerceEngine () () True)"
proof -
  have t: "\<not> is_train (data test_config)" by (simp add: test_config_def sample_config_def)
  have g: "use_gpu test_config" by (simp add: test_config_def sample_config_def)
  show ?thesis
    using t g
      inference_engine_ignores_loss [OF t, of "(loss test_config)\<lparr>loss_name := ''arcface''\<rparr>"
        "()" "()" "()" "()"]
      inference_engine_ignores_loss [OF t, of "loss test_config" "()" "()" "()" "()"]
    by simp
qed

text \<open>
  Claim C10, as the code has it. The seed and the log are state of the process, set by
  \<^verbatim>\<open>main\<close> once each: \<^verbatim>\<open>set_random_seed(cfg.train.seed)\<close>, then \<^verbatim>\<open>sys.stdout\<close> replaced by a
  \<^verbatim>\<open>Logger\<close> on a file in \<^verbatim>\<open>data.save_dir\<close>, right after the merges of the configuration
  and before the data manager, the model and all that follows them are built. No engine
  constructor is given either: the engine \<^verbatim>\<open>build_engine\<close> returns is the same whatever
  \<^verbatim>\<open>train\<close>, \<^verbatim>\<open>test\<close> and \<^verbatim>\<open>data.save_dir\<close> hold.
\<close>

theorem seed_and_log_are_process_state:
  "build_engine (cfg\<lparr>train := tr, test := te, data := (data cfg)\<lparr>save_dir := d\<rparr>\<rparr>) dm m opt sch =
     build_engine cfg dm m opt sch \<and>
   st_seed (fst (main w a)) = Some (seed (train (resolve_config w a))) \<and>
   st_stdout (fst (main w a)) =
     Logger (save_dir (data (resolve_config w a)))
       ((if evaluate (test (resolve_config w a)) then ''test.log'' else ''train.log'')
          @ strftime w) \<and>
   filter is_SetRandomSeed (st_trace (fst (main w a))) =
     [SetRandomSeed (seed (train (resolve_config w a)))] \<and>
   filter is_SetStdout (st_trace (fst (main w a))) =
     [SetStdout (save_dir (data (resolve_config w a)))
        ((if evaluate (test (resolve_config w a)) then ''test.log'' else ''train.log'')
           @ strftime w)] \<and>
   (\<exists>rest. st_trace (fst (main w a)) =
      CudaIsAvailable # (if config_file a \<noteq> [] then [MergeFromFile (config_file a)] else [])
      @ [MergeFromList (opts a),
         SetRandomSeed (seed (train (resolve_config w a))),
         SetStdout (save_dir (data (resolve_config w a)))
           ((if evaluate (test (resolve_config w a)) then ''test.log'' else ''train.log'')
              @ strftime w),
         BuildDataManager (resolve_config w a),
         BuildModel (model_name (model (resolve_config w a)))
           (num_train_pids w (build_datamanager w (resolve_config w a)))
           (loss_name (loss (resolve_config w a))) (pretrained (model (resolve_config w a)))
           (use_gpu (resolve_config w a))]
      @ rest)"
proof -
  have "build_engine (cfg\<lparr>train := tr, test := te, data := (data cfg)\<lparr>save_dir := d\<rparr>\<rparr>)
      dm m opt sch = build_engine cfg dm m opt sch"
    by (simp add: build_engine_def)
  moreover note main_trace_head [of w a]
  ultimately show ?thesis
    by (simp add: main_trace_filter trace_globals main_state_frame resumed_frame startup_fields
        split: sum.splits)
qed

theorem seed_and_log_are_process_state_witness:
  "st_seed (fst (main sample_world sample_args)) = Some 1 \<and>
   st_stdout (fst (main sample_world sample_args)) =
     Logger ''log'' ''train.log-2019-11-20-10-00-00'' \<and>
   filter is_SetRandomSeed (st_trace (fst (main sample_world sample_args))) = [SetRandomSeed 1] \<and>
   (\<exists>rest. st_trace (fst (main sample_world sample_args)) =
      [CudaIsAvailable, MergeFromList [], SetRandomSeed 1,
       SetStdout ''log'' ''train.log-2019-11-20-10-00-00'',
       BuildDataManager sample_config,
       BuildModel ''resnet50'' 751 ''softmax'' True True] @ rest)"
proof -
  have f: "seed (train sample_config) = 1" "save_dir (data sample_config) = ''log''"
    "\<not> evaluate (test sample_config)" "strftime sample_world = ''-2019-11-20-10-00-00''"
    "config_file sample_args = []" "opts sample_args = []"
    "model_name (model sample_config) = ''resnet50''"
    "loss_name (loss sample_config) = ''softmax''"
    "pretrained (model sample_config)" "use_gpu sample_config"
    "num_train_pids sample_world = (\<lambda>dm. 751)"
    by (simp_all add: sample_config_def sample_world_def sample_args_def)
  show ?thesis
    using seed_and_log_are_process_state [where w = sample_world and a = sample_args
        and cfg = sample_config and tr = "train sample_config" and te = "test sample_config"
        and d = "''log''" and dm = "()" and m = "()" and opt = "()" and sch = "()"]
    by (simp add: sample_resolve f)
qed

text \<open>
  The claim as the spec words it has the seed and the log sink passed to the engine's
  constructor and no process-wide state set. Two runs that differ in \<^verbatim>\<open>train.seed\<close> only
  (1 and 2) leave different seeds in the process and construct the same engine, with the
  same call of \<^verbatim>\<open>engine.run\<close>; the engine holds no seed and no log.
\<close>

theorem seed_not_engine_parameter_counterexample:
  "st_seed (fst (main sample_world sample_args)) = Some 1 \<and>
   st_seed (fst (main other_seed_world sample_args)) = Some 2 \<and>
   st_stdout (fst (main sample_world sample_args)) =
     Logger ''log'' ''train.log-2019-11-20-10-00-00'' \<and>
   snd (main sample_world sample_args) = snd (main other_seed_world sample_args) \<and>
   filter is_EngineInit (st_trace (fst (main sample_world sample_args))) =
     [EngineInit (ImageSoftmaxEngine (ImageDataManager [''market1501''])
        (DataParallelCuda_of (Net ''resnet50'' 751 ''softmax'' True True))
        (Optimizer (DataParallelCuda_of (Net ''resnet50'' 751 ''softmax'' True True)))
        (Scheduler (Optimizer (DataParallelCuda_of (Net ''resnet50'' 751 ''softmax'' True True))))
        True True)]"
  by (simp add: run_defs other_seed_world_def)

end
